theory Spec2Isabelle
  imports Complex_Main
begin

section \<open>The dark-matter tutorial notebook \<open>tcap2021DM.ipynb\<close>\<close>

text \<open>
  The notebook is a script: a sequence of code cells that bind global variables and call
  GammaLib and ctools objects. Each code cell is embedded as a function from the notebook
  state to an optional exception and the state the cell leaves behind (a Python exception
  stops the cell, and what the cell did before it stays done).

  Python floats are represented by the real numbers: the arithmetic of the cells is exact,
  and rounding is not modelled in them; the flux normalization is given a second time
  with the rounding of double arithmetic. Python ints that the script mixes with floats are embedded
  in the reals. A float literal with an exponent is written out: \<open>1.8621e+18\<close> is
  \<open>1.8621 * 10 ^ 18\<close> and \<open>1.0e-3\<close> is \<open>1.0 / 10 ^ 3\<close>.
\<close>

subsection \<open>Exceptions\<close>

text \<open>
  The exceptions of Python that the script can run into, and the error taxonomy of the
  specification.
\<close>

datatype exn =
    NameError string
  | SyntaxError
  | ZeroDivisionError
  | InvalidParameterError
  | OutOfRangeError
  | InvalidRangeError
  | DegenerateReferenceError
  | ExternalEvaluationFailure

subsection \<open>The parameter store\<close>

text \<open>
  A model parameter as the script uses it (\<open>dmspec['Normalization']\<close>): a value, a valid
  range, a free/fixed flag and a scale factor.
\<close>

record par =
  pvalue :: real
  pmin :: real
  pmax :: real
  pfree :: bool
  pscale :: real

text \<open>
  Modelled from the spec: the class of GammaLib behind \<open>par.value(x)\<close>, \<open>par.fix()\<close>,
  \<open>par.free()\<close>, \<open>par.scale(f)\<close> and \<open>par.range(lo, hi)\<close> is not part of the
  repository. Setting a value is rejected with \<open>OutOfRangeError\<close> when the value is
  outside the declared range and the parameter is free; a fixed parameter may be set to
  any value.
\<close>

definition par_value :: "real \<Rightarrow> par \<Rightarrow> exn + par" where
  "par_value v p =
     (if pfree p \<and> (v < pmin p \<or> pmax p < v) then Inl OutOfRangeError
      else Inr (p\<lparr>pvalue := v\<rparr>))"

definition par_fix :: "par \<Rightarrow> par" where
  "par_fix p = p\<lparr>pfree := False\<rparr>"

definition par_free :: "par \<Rightarrow> par" where
  "par_free p = p\<lparr>pfree := True\<rparr>"

definition par_scale :: "real \<Rightarrow> par \<Rightarrow> par" where
  "par_scale f p = p\<lparr>pscale := f\<rparr>"

definition par_range :: "real \<Rightarrow> real \<Rightarrow> par \<Rightarrow> par" where
  "par_range lo hi p = p\<lparr>pmin := lo, pmax := hi\<rparr>"

text \<open>
  The spectral table model (\<open>GModelSpectralTable\<close>) as far as the script reaches into
  it: its three named parameters.
\<close>

record spectral =
  Mass :: par
  Channel :: par
  Normalization :: par

subsection \<open>The fit object\<close>

text \<open>
  \<open>like\<close> is the \<open>ctlike\<close> object: \<open>src\<close> is
  \<open>like.obs().models()[srcname].spectral()\<close>, \<open>opt_value\<close> is
  \<open>like.opt().value()\<close>, and \<open>others\<close> is everything else the object holds
  (the observations, the background model, the optimizer's own state).
\<close>

record 'o like =
  src :: spectral
  others :: 'o
  opt_value :: real

text \<open>
  Modelled from the spec: the optimizer behind \<open>like.run()\<close> is not part of the
  repository. It reads the model and the rest of the fit object, and either fails or
  returns best-fit values and the optimized log-likelihood; \<open>like.run()\<close> writes the
  best-fit values into the free parameters only, and a failure is the exception
  \<open>ExternalEvaluationFailure\<close>.
\<close>

record fit =
  best_Mass :: real
  best_Channel :: real
  best_Normalization :: real
  logL :: real

type_synonym 'o optimizer = "spectral \<Rightarrow> 'o \<Rightarrow> fit option \<times> 'o"

definition refit :: "real \<Rightarrow> par \<Rightarrow> par" where
  "refit v p = (if pfree p then p\<lparr>pvalue := v\<rparr> else p)"

definition like_run :: "'o optimizer \<Rightarrow> 'o like \<Rightarrow> exn option \<times> 'o like" where
  "like_run opt lk =
     (case opt (src lk) (others lk) of
        (None, ot) \<Rightarrow> (Some ExternalEvaluationFailure, lk\<lparr>others := ot\<rparr>)
      | (Some r, ot) \<Rightarrow>
          (None,
           lk\<lparr>src := \<lparr>Mass = refit (best_Mass r) (Mass (src lk)),
                       Channel = refit (best_Channel r) (Channel (src lk)),
                       Normalization = refit (best_Normalization r) (Normalization (src lk))\<rparr>,
              others := ot,
              opt_value := logL r\<rparr>))"

subsection \<open>The notebook state\<close>

text \<open>
  \<open>vars\<close> holds the numeric global variables of the kernel by name; a name that no
  executed cell has bound is absent, and reading it raises \<open>NameError\<close>. String
  variables (\<open>srcname\<close>, the file names) are left out. The objects the properties below
  are about are fields of their own: \<open>dmspec\<close>, the spectral component of
  \<open>dmmodel\<close> (\<open>GModelSky\<close> copies the spectral model it is given), the spectral
  component of \<open>models[srcname]\<close> (\<open>models.append\<close> copies the model), the fit
  object \<open>like\<close>, and the lists \<open>norma_r\<close> and \<open>ll_values\<close>. \<open>stdout\<close> is what
  \<open>print\<close> wrote, and \<open>fit_calls\<close> is a ghost field: the inputs (the model and the
  rest of the fit object) on which the scan loop invoked the optimizer, in order. An object
  field holds a placeholder until the cell that binds the object has run; no cell of the
  notebook reads an object before that.
\<close>

record 'o notebook =
  vars :: "string \<rightharpoonup> real"
  dmspec :: spectral
  dmmodel :: spectral
  models :: spectral
  like :: "'o like"
  norma_r :: "real list"
  ll_values :: "real list"
  stdout :: "real list"
  fit_calls :: "(spectral \<times> 'o) list"

type_synonym 'o cell = "'o notebook \<Rightarrow> exn option \<times> 'o notebook"

definition rd :: "string \<Rightarrow> 'o notebook \<Rightarrow> exn + real" where
  "rd x nb = (case vars nb x of None \<Rightarrow> Inl (NameError x) | Some v \<Rightarrow> Inr v)"

definition bind_var :: "string \<Rightarrow> real \<Rightarrow> 'o notebook \<Rightarrow> 'o notebook" where
  "bind_var x v nb = nb\<lparr>vars := (vars nb)(x \<mapsto> v)\<rparr>"

text \<open>Running cells in order stops at the first cell that raises.\<close>

fun run_cells :: "'o cell list \<Rightarrow> 'o cell" where
  "run_cells [] nb = (None, nb)"
| "run_cells (c # cs) nb =
     (case c nb of (Some e, nb1) \<Rightarrow> (Some e, nb1) | (None, nb1) \<Rightarrow> run_cells cs nb1)"

subsection \<open>Modelling the source: the input cells\<close>

text \<open>
  \<^verbatim>\<open>jfactor = 1.8621e+18;  ra = 338.4813;  dec = -9.3274\<close>
\<close>

definition cell_source :: "'o cell" where
  "cell_source nb =
     (None, bind_var ''dec'' (- 9.3274) (bind_var ''ra'' 338.4813
              (bind_var ''jfactor'' (1.8621 * 10 ^ 18) nb)))"

text \<open>
  \<^verbatim>\<open>mass = 5.0e+3;  channel = 8\<close>
\<close>

definition cell_mass_channel :: "'o cell" where
  "cell_mass_channel nb = (None, bind_var ''channel'' 8 (bind_var ''mass'' (5.0 * 10 ^ 3) nb))"

text \<open>
  \<^verbatim>\<open>sigmav = 2.7e-22\<close> and, in the upper-limit part, \<^verbatim>\<open>sigmav = 5.0e-24\<close>: the cell
  is taken with the literal as its argument.
\<close>

definition cell_sigmav :: "real \<Rightarrow> 'o cell" where
  "cell_sigmav s nb = (None, bind_var ''sigmav'' s nb)"

text \<open>
  \<^verbatim>\<open>fluxnorm  = jfactor * sigmav / (8*gammalib.pi*mass**2)
fluxnorm *= 1.0e-3\<close>
  \<open>fluxnorm\<close> is the value the two statements leave in the variable; the cell runs
  them one after the other, and a division by zero raises as in Python.
\<close>

definition fluxnorm :: "real \<Rightarrow> real \<Rightarrow> real \<Rightarrow> real" where
  "fluxnorm jfactor sigmav mass = jfactor * sigmav / (8 * pi * mass ^ 2) * (1.0 / 10 ^ 3)"

definition cell_fluxnorm :: "'o cell" where
  "cell_fluxnorm nb =
     (case rd ''jfactor'' nb of Inl e \<Rightarrow> (Some e, nb) | Inr jfactor \<Rightarrow>
     (case rd ''sigmav'' nb of Inl e \<Rightarrow> (Some e, nb) | Inr sigmav \<Rightarrow>
     (case rd ''mass'' nb of Inl e \<Rightarrow> (Some e, nb) | Inr mass \<Rightarrow>
     (if 8 * pi * mass ^ 2 = 0 then (Some ZeroDivisionError, nb)
      else
        (let nb1 = bind_var ''fluxnorm'' (jfactor * sigmav / (8 * pi * mass ^ 2)) nb in
         (case rd ''fluxnorm'' nb1 of Inl e \<Rightarrow> (Some e, nb1) | Inr f \<Rightarrow>
            (None, bind_var ''fluxnorm'' (f * (1.0 / 10 ^ 3)) nb1)))))))"

subsection \<open>Modelling the source: the spectral model\<close>

text \<open>
  \<^verbatim>\<open>dmspec = gammalib.GModelSpectralTable()
dmspec.load(dmspecEW)
dmspec['Mass'].value(mass)
dmspec['Channel'].value(channel)
dmspec['Channel'].scale(1)
dmspec['Normalization'].value(fluxnorm)
dmspec['Normalization'].range(0.0, 1.0e+20)\<close>
  The table file is not part of the repository: the parameters it declares are the
  argument \<open>tbl\<close>.
\<close>

definition set_Mass :: "par \<Rightarrow> spectral \<Rightarrow> spectral" where
  "set_Mass p s = s\<lparr>Mass := p\<rparr>"

definition set_Channel :: "par \<Rightarrow> spectral \<Rightarrow> spectral" where
  "set_Channel p s = s\<lparr>Channel := p\<rparr>"

definition set_Normalization :: "par \<Rightarrow> spectral \<Rightarrow> spectral" where
  "set_Normalization p s = s\<lparr>Normalization := p\<rparr>"

definition cell_dmspec :: "spectral \<Rightarrow> 'o cell" where
  "cell_dmspec tbl nb =
     (let nb0 = nb\<lparr>dmspec := tbl\<rparr> in
      (case rd ''mass'' nb0 of Inl e \<Rightarrow> (Some e, nb0) | Inr mass \<Rightarrow>
      (case par_value mass (Mass (dmspec nb0)) of Inl e \<Rightarrow> (Some e, nb0) | Inr pm \<Rightarrow>
      (let nb1 = nb0\<lparr>dmspec := set_Mass pm (dmspec nb0)\<rparr> in
      (case rd ''channel'' nb1 of Inl e \<Rightarrow> (Some e, nb1) | Inr channel \<Rightarrow>
      (case par_value channel (Channel (dmspec nb1)) of Inl e \<Rightarrow> (Some e, nb1) | Inr pc \<Rightarrow>
      (let nb2 = nb1\<lparr>dmspec := set_Channel pc (dmspec nb1)\<rparr>;
           nb3 = nb2\<lparr>dmspec := set_Channel (par_scale 1 (Channel (dmspec nb2))) (dmspec nb2)\<rparr> in
      (case rd ''fluxnorm'' nb3 of Inl e \<Rightarrow> (Some e, nb3) | Inr fn \<Rightarrow>
      (case par_value fn (Normalization (dmspec nb3)) of Inl e \<Rightarrow> (Some e, nb3) | Inr pn \<Rightarrow>
      (let nb4 = nb3\<lparr>dmspec := set_Normalization pn (dmspec nb3)\<rparr> in
        (None, nb4\<lparr>dmspec := set_Normalization
                   (par_range 0.0 (1.0 * 10 ^ 20) (Normalization (dmspec nb4))) (dmspec nb4)\<rparr>)
      ))))))))))"

text \<open>
  \<^verbatim>\<open>dmspec['Mass'].free()\<close>
\<close>

definition cell_free_mass :: "'o cell" where
  "cell_free_mass nb = (None, nb\<lparr>dmspec := set_Mass (par_free (Mass (dmspec nb))) (dmspec nb)\<rparr>)"

text \<open>
  \<^verbatim>\<open>dmmodel = gammalib.GModelSky(spatial, dmspec)\<close> and
  \<^verbatim>\<open>models.append(dmmodel)\<close>: each keeps a copy of the spectral model it is given.
\<close>

definition cell_dmmodel :: "'o cell" where
  "cell_dmmodel nb = (None, nb\<lparr>dmmodel := dmspec nb\<rparr>)"

definition cell_models :: "'o cell" where
  "cell_models nb = (None, nb\<lparr>models := dmmodel nb\<rparr>)"

text \<open>
  \<^verbatim>\<open>emin  = 0.03 # TeV
emax  = 100. # TeV\<close>
\<close>

definition cell_emin :: "'o cell" where
  "cell_emin nb = (None, bind_var ''emax'' 100 (bind_var ''emin'' 0.03 nb))"

text \<open>
  \<^verbatim>\<open>like = ctools.ctlike(obssim.obs())
like.run()\<close>
  The simulated observations are not part of the repository: the fit object built from
  them is the argument \<open>lk0\<close>.
\<close>

definition cell_like :: "'o optimizer \<Rightarrow> 'o like \<Rightarrow> 'o cell" where
  "cell_like opt lk0 nb =
     (case like_run opt lk0 of (e, lk) \<Rightarrow> (e, nb\<lparr>like := lk\<rparr>))"

subsection \<open>Modelling the source: the cross-section cells\<close>

text \<open>
  An energy with its unit, \<open>gammalib.GEnergy(v, unit)\<close>, is kept in TeV.
\<close>

datatype eunit = GeV | TeV

fun GEnergy :: "real \<Rightarrow> eunit \<Rightarrow> real" where
  "GEnergy v TeV = v"
| "GEnergy v GeV = v / 1000"

text \<open>
  \<^verbatim>\<open>gemin = gammalib.GEnergy(emin, 'TeV')
gemax = gammalib.GEnergy(mass, 'GeV')
ref_flux = dmmodel.spectral().flux(gemin, gemax)
meas_flux = like.obs().models()[srcname].spectral().flux(gemin, gemax)
# Measured cross-section
print(meas_sigmav)\<close>
  The flux integrator of GammaLib is not part of the repository: it is the argument
  \<open>flux\<close>, which returns the integrated flux of a spectral model between two energies,
  or \<open>None\<close> when it raises (\<open>InvalidRangeError\<close>).
\<close>

type_synonym integrator = "spectral \<Rightarrow> real \<Rightarrow> real \<Rightarrow> real option"

definition cell_meas_sigmav :: "integrator \<Rightarrow> 'o cell" where
  "cell_meas_sigmav flux nb =
     (case rd ''emin'' nb of Inl e \<Rightarrow> (Some e, nb) | Inr emin \<Rightarrow>
     (case rd ''mass'' nb of Inl e \<Rightarrow> (Some e, nb) | Inr mass \<Rightarrow>
     (let gemin = GEnergy emin TeV; gemax = GEnergy mass GeV in
     (case flux (dmmodel nb) gemin gemax of None \<Rightarrow> (Some InvalidRangeError, nb) | Some rf \<Rightarrow>
     (let nb1 = bind_var ''ref_flux'' rf nb in
     (case flux (src (like nb1)) gemin gemax of None \<Rightarrow> (Some InvalidRangeError, nb1) | Some mf \<Rightarrow>
     (let nb2 = bind_var ''meas_flux'' mf nb1 in
     (case rd ''meas_sigmav'' nb2 of Inl e \<Rightarrow> (Some e, nb2) | Inr v \<Rightarrow>
        (None, nb2\<lparr>stdout := stdout nb2 @ [v]\<rparr>)))))))))"

text \<open>
  \<^verbatim>\<open>models[srcname].spectral()['Normalization'].value(fluxnorm)
models[srcname].spectral()['Mass'].fix()\<close>
\<close>

definition cell_models_update :: "'o cell" where
  "cell_models_update nb =
     (case rd ''fluxnorm'' nb of Inl e \<Rightarrow> (Some e, nb) | Inr fn \<Rightarrow>
     (case par_value fn (Normalization (models nb)) of Inl e \<Rightarrow> (Some e, nb) | Inr pn \<Rightarrow>
     (let nb1 = nb\<lparr>models := set_Normalization pn (models nb)\<rparr> in
        (None, nb1\<lparr>models := set_Mass (par_fix (Mass (models nb1))) (models nb1)\<rparr>))))"

text \<open>
  \<^verbatim>\<open>ulimit_flux = ulimit.flux_ulimit()
ul_sigmav =

print(ul_sigmav)\<close>
  The second line is not a statement of Python: the cell does not compile, and none of
  its lines runs.
\<close>

definition cell_ul_sigmav :: "'o cell" where
  "cell_ul_sigmav nb = (Some SyntaxError, nb)"

subsection \<open>Modelling the source: the likelihood profile\<close>

text \<open>
  \<^verbatim>\<open>npoints = 50
width_s = (-6 - (-28)) / (npoints - 1)
norma_r = [10**(-28 + i * width_s) for i in range(npoints)]\<close>
  \<open>10**x\<close> with a float exponent is the real power \<open>10 powr x\<close>.
\<close>

definition cell_norma_r :: "'o cell" where
  "cell_norma_r nb =
     (let npoints = (50::nat);
          width_s = (- 6 - (- 28)) / (real npoints - 1);
          nb1 = bind_var ''width_s'' width_s (bind_var ''npoints'' (real npoints) nb)
      in (None, nb1\<lparr>norma_r := map (\<lambda>i. 10 powr (- 28 + real i * width_s)) [0..<npoints]\<rparr>))"

text \<open>
  \<^verbatim>\<open>like.obs().models()[srcname].spectral()['Normalization'].fix()\<close>
\<close>

definition cell_fix :: "'o cell" where
  "cell_fix nb =
     (None, nb\<lparr>like := (like nb)\<lparr>src :=
                set_Normalization (par_fix (Normalization (src (like nb)))) (src (like nb))\<rparr>\<rparr>)"

text \<open>
  \<^verbatim>\<open>ll_values = []

for norma in norma_r :
    like.obs().models()[srcname].spectral()['Normalization'].value(norma)
    like.run()
    ll = like.opt().value()
    ll_values.append(ll)\<close>
  The body of the loop is a cell of its own, and the loop is a recursion over the trial
  values that are left. Each call of \<open>like.run()\<close> is logged in \<open>fit_calls\<close> with the
  input it was invoked on.
\<close>

definition scan_body :: "'o optimizer \<Rightarrow> real \<Rightarrow> 'o cell" where
  "scan_body opt norma nb =
     (let nb1 = bind_var ''norma'' norma nb in
      (case par_value norma (Normalization (src (like nb1))) of
         Inl e \<Rightarrow> (Some e, nb1)
       | Inr pn \<Rightarrow>
          (let lk = (like nb1)\<lparr>src := set_Normalization pn (src (like nb1))\<rparr>;
               nb2 = nb1\<lparr>like := lk, fit_calls := fit_calls nb1 @ [(src lk, others lk)]\<rparr> in
           (case like_run opt lk of
              (Some e, lk1) \<Rightarrow> (Some e, nb2\<lparr>like := lk1\<rparr>)
            | (None, lk1) \<Rightarrow>
               (let nb3 = bind_var ''ll'' (opt_value lk1) (nb2\<lparr>like := lk1\<rparr>) in
                (None, nb3\<lparr>ll_values := ll_values nb3 @ [opt_value lk1]\<rparr>))))))"

fun scan_loop :: "'o optimizer \<Rightarrow> real list \<Rightarrow> 'o cell" where
  "scan_loop opt [] nb = (None, nb)"
| "scan_loop opt (norma # rest) nb =
     (case scan_body opt norma nb of
        (Some e, nb1) \<Rightarrow> (Some e, nb1)
      | (None, nb1) \<Rightarrow> scan_loop opt rest nb1)"

definition cell_scan :: "'o optimizer \<Rightarrow> 'o cell" where
  "cell_scan opt nb = scan_loop opt (norma_r nb) (nb\<lparr>ll_values := [], fit_calls := []\<rparr>)"

text \<open>
  The profile scanner is the two cells in order: fix the parameter, then scan.
\<close>

definition profile_scanner :: "'o optimizer \<Rightarrow> 'o cell" where
  "profile_scanner opt = run_cells [cell_fix, cell_scan opt]"

subsection \<open>Double arithmetic\<close>

text \<open>
  The flux normalization once more, in the arithmetic of the machine. A double is
  represented by the real number it denotes. \<open>rne\<close> rounds a real to the nearest integer,
  ties to the even one; \<open>rnd\<close> rounds a real to the nearest double (53 significant bits,
  exponents down to the subnormal range). Infinities are not represented: \<open>rnd\<close> is
  meant for arguments below the largest double only, which all values of the notebook
  are by hundreds of orders of magnitude.
\<close>

definition rne :: "real \<Rightarrow> int" where
  "rne y =
     (let n = \<lfloor>y\<rfloor>; r = y - of_int n
      in if r < 1 / 2 then n else if 1 / 2 < r then n + 1 else if even n then n else n + 1)"

definition rnd :: "real \<Rightarrow> real" where
  "rnd x =
     (if x = 0 then 0
      else
        (let e = max (\<lfloor>log 2 \<bar>x\<bar>\<rfloor> - 52) (- 1074)
         in sgn x * of_int (rne (\<bar>x\<bar> / 2 powr of_int e)) * 2 powr of_int e))"

text \<open>
  Modelled from the spec: the constant \<open>gammalib.pi\<close> is not part of the repository. The
  \<open>\<pi>\<close> of the spec's formula is taken as the machine has it, the double nearest to
  \<open>\<pi>\<close>, \<open>0x1.921fb54442d18p+1\<close>.
\<close>

definition pi_double :: real where
  "pi_double = 884279719003555 / 2 ^ 48"

text \<open>
  \<^verbatim>\<open>fluxnorm  = jfactor * sigmav / (8*gammalib.pi*mass**2)
fluxnorm *= 1.0e-3\<close>
  with every operation rounded: the product \<open>jfactor * sigmav\<close>, then \<open>8*gammalib.pi\<close>,
  \<open>mass**2\<close> and their product, then the quotient (a zero divisor raises), then the
  product with the literal \<open>1.0e-3\<close>, itself rounded on reading. The arguments are
  doubles.
\<close>

definition fluxnorm_double :: "real \<Rightarrow> real \<Rightarrow> real \<Rightarrow> exn + real" where
  "fluxnorm_double jfactor sigmav mass =
     (let d = rnd (rnd (8 * pi_double) * rnd (mass ^ 2))
      in if d = 0 then Inl ZeroDivisionError
         else
           (let fluxnorm = rnd (rnd (jfactor * sigmav) / d)
            in Inr (rnd (fluxnorm * rnd (1.0 / 10 ^ 3)))))"

subsection \<open>The cells of the notebook in order\<close>

text \<open>
  The cells that build the model container, with the literal of \<open>sigmav\<close> as argument,
  and the cells up to the measured cross section.
\<close>

definition model_cells :: "real \<Rightarrow> spectral \<Rightarrow> 'o cell list" where
  "model_cells s tbl =
     [cell_source, cell_mass_channel, cell_sigmav s, cell_fluxnorm, cell_dmspec tbl,
      cell_free_mass, cell_dmmodel, cell_models]"

definition analysis_cells ::
    "spectral \<Rightarrow> 'o optimizer \<Rightarrow> 'o like \<Rightarrow> integrator \<Rightarrow> 'o cell list" where
  "analysis_cells tbl opt lk0 flux =
     model_cells (2.7 / 10 ^ 22) tbl @ [cell_emin, cell_like opt lk0, cell_meas_sigmav flux]"

text \<open>A parameter accepts a value when \<open>par_value\<close> does not reject it.\<close>

definition accepts :: "real \<Rightarrow> par \<Rightarrow> bool" where
  "accepts v p = (\<not> (pfree p \<and> (v < pmin p \<or> pmax p < v)))"

subsection \<open>Reading the scan\<close>

text \<open>
  Names for what the statements about the scan speak of: the parameter the loop sweeps,
  the input of the optimizer when the body runs at trial value \<open>v\<close>, the trial value
  and the outcome of a logged call (the log-likelihood the optimizer returns on that
  input, \<open>None\<close> when it fails), and two parameters that differ at most in their value.
\<close>


definition scanned :: "'o notebook \<Rightarrow> par" where
  "scanned nb = Normalization (src (like nb))"

definition trial_of :: "spectral \<times> 'o \<Rightarrow> real" where
  "trial_of c = pvalue (Normalization (fst c))"

definition fit_result :: "'o optimizer \<Rightarrow> spectral \<times> 'o \<Rightarrow> real option" where
  "fit_result opt c = map_option logL (fst (opt (fst c) (snd c)))"

definition call_at :: "real \<Rightarrow> 'o notebook \<Rightarrow> spectral \<times> 'o" where
  "call_at v nb =
     ((src (like nb))\<lparr>Normalization := (Normalization (src (like nb)))\<lparr>pvalue := v\<rparr>\<rparr>,
      others (like nb))"

definition same_declaration :: "par \<Rightarrow> par \<Rightarrow> bool" where
  "same_declaration p q = (pfree p = pfree q \<and> pmin p = pmin q \<and> pmax p = pmax q \<and> pscale p = pscale q)"

text \<open>
  The value the comprehension of \<open>norma_r\<close> computes at index \<open>i\<close>, with the step
  \<open>width_s = 22 / 49\<close> of the notebook.
\<close>

definition trial :: "nat \<Rightarrow> real" where
  "trial i = 10 powr (- 28 + real i * (22 / 49))"

text \<open>
  A state is quiet with respect to an earlier one when \<open>meas_sigmav\<close> is bound as it was
  and nothing has been printed since.
\<close>

definition quiet :: "'o notebook \<Rightarrow> 'o notebook \<Rightarrow> bool" where
  "quiet nb0 nb = (vars nb ''meas_sigmav'' = vars nb0 ''meas_sigmav'' \<and> stdout nb = stdout nb0)"

subsection \<open>Concrete inputs\<close>

text \<open>
  A table whose mass and channel are fixed and whose normalization is free, a fit object
  on it, a kernel in which no cell has run, and stand-ins for the external routines: an
  optimizer that returns the normalization it was called with as log-likelihood, one that
  fails at a given normalization, and an integrator that returns the mass of the model
  times the width of the energy interval.
\<close>

definition tbl_example :: spectral where
  "tbl_example =
     \<lparr>Mass = \<lparr>pvalue = 1000, pmin = 100, pmax = 100000, pfree = False, pscale = 1\<rparr>,
      Channel = \<lparr>pvalue = 1, pmin = 1, pmax = 30, pfree = False, pscale = 1\<rparr>,
      Normalization = \<lparr>pvalue = 1, pmin = 0, pmax = 1000, pfree = True, pscale = 1\<rparr>\<rparr>"

definition like_example :: "unit like" where
  "like_example =
     \<lparr>src = \<lparr>Mass = \<lparr>pvalue = 4000, pmin = 100, pmax = 100000, pfree = False, pscale = 1\<rparr>,
              Channel = \<lparr>pvalue = 8, pmin = 1, pmax = 30, pfree = False, pscale = 1\<rparr>,
              Normalization = \<lparr>pvalue = 1, pmin = 0, pmax = 10 ^ 20, pfree = True, pscale = 1\<rparr>\<rparr>,
      others = (), opt_value = 0\<rparr>"

definition nb_fresh :: "unit notebook" where
  "nb_fresh =
     \<lparr>vars = Map.empty, dmspec = tbl_example, dmmodel = tbl_example, models = tbl_example,
      like = like_example, norma_r = [], ll_values = [], stdout = [], fit_calls = []\<rparr>"

definition opt_echo :: "unit optimizer" where
  "opt_echo s ot =
     (Some \<lparr>best_Mass = 4000, best_Channel = 8, best_Normalization = 1,
            logL = pvalue (Normalization s)\<rparr>, ot)"

definition opt_fail_at :: "real \<Rightarrow> unit optimizer" where
  "opt_fail_at x s ot = (if pvalue (Normalization s) = x then (None, ot) else opt_echo s ot)"

definition nb_three :: "unit notebook" where
  "nb_three = nb_fresh\<lparr>norma_r := [1, 2, 3]\<rparr>"

definition nb_ten :: "unit notebook" where
  "nb_ten = nb_fresh\<lparr>norma_r := [1, 2, 3, 4, 5, 6, 7, 8, 9, 10]\<rparr>"

definition flux_mass :: integrator where
  "flux_mass s lo hi = Some (pvalue (Mass s) * (hi - lo))"

definition flux_const :: "real \<Rightarrow> integrator" where
  "flux_const c s lo hi = Some c"


section \<open>Properties\<close>

subsection \<open>The input cells and the model container\<close>

lemma par_value_accepts: "accepts v p \<Longrightarrow> par_value v p = Inr (p\<lparr>pvalue := v\<rparr>)"
  by (simp add: par_value_def accepts_def)

lemma cell_fluxnorm_bound:
  assumes "vars nb ''jfactor'' = Some j" "vars nb ''sigmav'' = Some s" "vars nb ''mass'' = Some m"
    and "m \<noteq> 0"
  shows "cell_fluxnorm nb = (None, bind_var ''fluxnorm'' (fluxnorm j s m) nb)"
  using assms by (simp add: cell_fluxnorm_def rd_def bind_var_def fluxnorm_def)

lemma cell_dmspec_ok:
  assumes "vars nb ''mass'' = Some m" "vars nb ''channel'' = Some c" "vars nb ''fluxnorm'' = Some f"
    and "accepts m (Mass tbl)" "accepts c (Channel tbl)" "accepts f (Normalization tbl)"
  shows "cell_dmspec tbl nb =
    (None, nb\<lparr>dmspec := \<lparr>Mass = (Mass tbl)\<lparr>pvalue := m\<rparr>,
                          Channel = (Channel tbl)\<lparr>pvalue := c, pscale := 1\<rparr>,
                          Normalization = (Normalization tbl)\<lparr>pvalue := f, pmin := 0, pmax := 10 ^ 20\<rparr>\<rparr>\<rparr>)"
  using assms
  by (simp add: cell_dmspec_def rd_def par_value_accepts Let_def set_Mass_def set_Channel_def
      set_Normalization_def par_scale_def par_range_def)

lemma input_cells_vars:
  "run_cells [cell_source, cell_mass_channel, cell_sigmav s, cell_fluxnorm] nb =
     (None, bind_var ''fluxnorm'' (fluxnorm (1.8621 * 10 ^ 18) s (5.0 * 10 ^ 3))
       (bind_var ''sigmav'' s (bind_var ''channel'' 8 (bind_var ''mass'' (5.0 * 10 ^ 3)
       (bind_var ''dec'' (- 9.3274) (bind_var ''ra'' 338.4813
       (bind_var ''jfactor'' (1.8621 * 10 ^ 18) nb)))))))"
  by (simp add: cell_source_def cell_mass_channel_def cell_sigmav_def cell_fluxnorm_def rd_def
      bind_var_def fluxnorm_def)

lemma run_cells_append:
  "run_cells (cs @ ds) nb =
     (case run_cells cs nb of (Some e, nb1) \<Rightarrow> (Some e, nb1) | (None, nb1) \<Rightarrow> run_cells ds nb1)"
  by (induction cs arbitrary: nb) (auto split: prod.splits option.splits)

lemma tail_cells_ok:
  assumes "vars nb ''mass'' = Some m" "vars nb ''channel'' = Some c" "vars nb ''fluxnorm'' = Some f"
    and "accepts m (Mass tbl)" "accepts c (Channel tbl)" "accepts f (Normalization tbl)"
  shows "run_cells [cell_dmspec tbl, cell_free_mass, cell_dmmodel, cell_models] nb =
    (None, nb\<lparr>dmspec := \<lparr>Mass = (Mass tbl)\<lparr>pvalue := m, pfree := True\<rparr>,
                          Channel = (Channel tbl)\<lparr>pvalue := c, pscale := 1\<rparr>,
                          Normalization = (Normalization tbl)\<lparr>pvalue := f, pmin := 0, pmax := 10 ^ 20\<rparr>\<rparr>,
               dmmodel := \<lparr>Mass = (Mass tbl)\<lparr>pvalue := m, pfree := True\<rparr>,
                          Channel = (Channel tbl)\<lparr>pvalue := c, pscale := 1\<rparr>,
                          Normalization = (Normalization tbl)\<lparr>pvalue := f, pmin := 0, pmax := 10 ^ 20\<rparr>\<rparr>,
               models := \<lparr>Mass = (Mass tbl)\<lparr>pvalue := m, pfree := True\<rparr>,
                          Channel = (Channel tbl)\<lparr>pvalue := c, pscale := 1\<rparr>,
                          Normalization = (Normalization tbl)\<lparr>pvalue := f, pmin := 0, pmax := 10 ^ 20\<rparr>\<rparr>\<rparr>)"
  by (simp add: cell_dmspec_ok [OF assms] cell_free_mass_def cell_dmmodel_def cell_models_def
      set_Mass_def par_free_def)

lemma model_cells_ok:
  assumes "accepts (5.0 * 10 ^ 3) (Mass tbl)" "accepts 8 (Channel tbl)"
    and "accepts (fluxnorm (1.8621 * 10 ^ 18) s (5.0 * 10 ^ 3)) (Normalization tbl)"
  shows "fst (run_cells (model_cells s tbl) nb) = None"
    and "vars (snd (run_cells (model_cells s tbl) nb)) ''fluxnorm'' = Some (fluxnorm (1.8621 * 10 ^ 18) s (5.0 * 10 ^ 3))"
    and "dmspec (snd (run_cells (model_cells s tbl) nb)) =
          \<lparr>Mass = (Mass tbl)\<lparr>pvalue := 5.0 * 10 ^ 3, pfree := True\<rparr>,
           Channel = (Channel tbl)\<lparr>pvalue := 8, pscale := 1\<rparr>,
           Normalization = (Normalization tbl)\<lparr>pvalue := fluxnorm (1.8621 * 10 ^ 18) s (5.0 * 10 ^ 3),
              pmin := 0, pmax := 10 ^ 20\<rparr>\<rparr>"
    and "dmmodel (snd (run_cells (model_cells s tbl) nb)) = dmspec (snd (run_cells (model_cells s tbl) nb))"
    and "models (snd (run_cells (model_cells s tbl) nb)) = dmspec (snd (run_cells (model_cells s tbl) nb))"
proof -
  let ?nb4 = "bind_var ''fluxnorm'' (fluxnorm (1.8621 * 10 ^ 18) s (5.0 * 10 ^ 3))
       (bind_var ''sigmav'' s (bind_var ''channel'' 8 (bind_var ''mass'' (5.0 * 10 ^ 3)
       (bind_var ''dec'' (- 9.3274) (bind_var ''ra'' 338.4813
       (bind_var ''jfactor'' (1.8621 * 10 ^ 18) nb))))))"
  have split: "model_cells s tbl = [cell_source, cell_mass_channel, cell_sigmav s, cell_fluxnorm]
        @ [cell_dmspec tbl, cell_free_mass, cell_dmmodel, cell_models]"
    by (simp add: model_cells_def)
  have r: "run_cells (model_cells s tbl) nb =
      run_cells [cell_dmspec tbl, cell_free_mass, cell_dmmodel, cell_models] ?nb4"
    unfolding split run_cells_append input_cells_vars by simp
  have v: "vars ?nb4 ''mass'' = Some (5.0 * 10 ^ 3)" "vars ?nb4 ''channel'' = Some 8"
    "vars ?nb4 ''fluxnorm'' = Some (fluxnorm (1.8621 * 10 ^ 18) s (5.0 * 10 ^ 3))"
    by (simp_all add: bind_var_def)
  note t = tail_cells_ok [OF v assms]
  show "fst (run_cells (model_cells s tbl) nb) = None"
    unfolding r t by simp
  show "vars (snd (run_cells (model_cells s tbl) nb)) ''fluxnorm'' = Some (fluxnorm (1.8621 * 10 ^ 18) s (5.0 * 10 ^ 3))"
    unfolding r t by (simp add: bind_var_def)
  show "dmspec (snd (run_cells (model_cells s tbl) nb)) =
          \<lparr>Mass = (Mass tbl)\<lparr>pvalue := 5.0 * 10 ^ 3, pfree := True\<rparr>,
           Channel = (Channel tbl)\<lparr>pvalue := 8, pscale := 1\<rparr>,
           Normalization = (Normalization tbl)\<lparr>pvalue := fluxnorm (1.8621 * 10 ^ 18) s (5.0 * 10 ^ 3),
              pmin := 0, pmax := 10 ^ 20\<rparr>\<rparr>"
    unfolding r t by simp
  show "dmmodel (snd (run_cells (model_cells s tbl) nb)) = dmspec (snd (run_cells (model_cells s tbl) nb))"
    unfolding r t by simp
  show "models (snd (run_cells (model_cells s tbl) nb)) = dmspec (snd (run_cells (model_cells s tbl) nb))"
    unfolding r t by simp
qed

lemma fluxnorm_scale: "fluxnorm j (k * s) m = k * fluxnorm j s m"
  by (simp add: fluxnorm_def)

lemma fluxnorm_lit: "fluxnorm (1.8621 * 10 ^ 18) (2.7 / 10 ^ 22) (5.0 * 10 ^ 3) = 2.513835 / 10 ^ 15 / pi"
  by (simp add: fluxnorm_def)

lemma models_update_ok:
  assumes "vars nb ''jfactor'' = Some j" "vars nb ''mass'' = Some m"
    and "accepts (fluxnorm j s m) (Normalization (models nb))" and "m \<noteq> 0"
  shows "run_cells [cell_sigmav s, cell_fluxnorm, cell_models_update] nb =
    (None, (bind_var ''fluxnorm'' (fluxnorm j s m) (bind_var ''sigmav'' s nb))
       \<lparr>models := \<lparr>Mass = (Mass (models nb))\<lparr>pfree := False\<rparr>,
                    Channel = Channel (models nb),
                    Normalization = (Normalization (models nb))\<lparr>pvalue := fluxnorm j s m\<rparr>\<rparr>\<rparr>)"
  using assms
  by (simp add: cell_sigmav_def cell_fluxnorm_def cell_models_update_def rd_def bind_var_def
      par_value_accepts set_Normalization_def set_Mass_def par_fix_def fluxnorm_def)

text \<open>
  C3. The flux normalization is computed from the inputs as
  \<open>jfactor * sigmav / (8 * pi * mass ^ 2) * (1 / 10 ^ 3)\<close>: whatever values \<open>j\<close>, \<open>s\<close> and
  \<open>m\<close> (not zero, or the division raises) the three variables hold, the cell binds
  \<open>fluxnorm\<close> to that value. For the inputs of the
  notebook (\<open>jfactor = 1.8621e+18\<close>, \<open>mass = 5.0e+3\<close>, \<open>sigmav = 2.7e-22\<close>) and a
  table whose parameters accept the three values, the cells up to the model container
  raise nothing, and the value of \<open>Normalization\<close> in \<open>dmspec\<close> is exactly that
  of the formula.
\<close>

theorem fluxnorm_assigned_to_Normalization:
  assumes "accepts (5.0 * 10 ^ 3) (Mass tbl)" and "accepts 8 (Channel tbl)"
    and "accepts (1.8621 * 10 ^ 18 * (2.7 / 10 ^ 22) / (8 * pi * (5.0 * 10 ^ 3) ^ 2) * (1.0 / 10 ^ 3))
           (Normalization tbl)"
    and "vars nb ''jfactor'' = Some j" and "vars nb ''sigmav'' = Some s"
    and "vars nb ''mass'' = Some m" and "m \<noteq> 0"
  shows "cell_fluxnorm nb =
           (None, bind_var ''fluxnorm'' (j * s / (8 * pi * m ^ 2) * (1.0 / 10 ^ 3)) nb)
    \<and> fst (run_cells (model_cells (2.7 / 10 ^ 22) tbl) nb0) = None
    \<and> vars (snd (run_cells (model_cells (2.7 / 10 ^ 22) tbl) nb0)) ''fluxnorm'' =
        Some (1.8621 * 10 ^ 18 * (2.7 / 10 ^ 22) / (8 * pi * (5.0 * 10 ^ 3) ^ 2) * (1.0 / 10 ^ 3))
    \<and> pvalue (Normalization (dmspec (snd (run_cells (model_cells (2.7 / 10 ^ 22) tbl) nb0)))) =
        1.8621 * 10 ^ 18 * (2.7 / 10 ^ 22) / (8 * pi * (5.0 * 10 ^ 3) ^ 2) * (1.0 / 10 ^ 3)"
proof -
  have a: "accepts (fluxnorm (1.8621 * 10 ^ 18) (2.7 / 10 ^ 22) (5.0 * 10 ^ 3)) (Normalization tbl)"
    using assms(3) unfolding fluxnorm_def .
  have 1: "cell_fluxnorm nb =
           (None, bind_var ''fluxnorm'' (j * s / (8 * pi * m ^ 2) * (1.0 / 10 ^ 3)) nb)"
    using cell_fluxnorm_bound [OF assms(4-7)] unfolding fluxnorm_def .
  note m = model_cells_ok [OF assms(1,2) a, of nb0]
  have 2: "fst (run_cells (model_cells (2.7 / 10 ^ 22) tbl) nb0) = None"
    by (rule m(1))
  have 3: "vars (snd (run_cells (model_cells (2.7 / 10 ^ 22) tbl) nb0)) ''fluxnorm'' =
        Some (1.8621 * 10 ^ 18 * (2.7 / 10 ^ 22) / (8 * pi * (5.0 * 10 ^ 3) ^ 2) * (1.0 / 10 ^ 3))"
    using m(2) unfolding fluxnorm_def .
  have 4: "pvalue (Normalization (dmspec (snd (run_cells (model_cells (2.7 / 10 ^ 22) tbl) nb0)))) =
        1.8621 * 10 ^ 18 * (2.7 / 10 ^ 22) / (8 * pi * (5.0 * 10 ^ 3) ^ 2) * (1.0 / 10 ^ 3)"
    unfolding m(3) fluxnorm_def by simp
  from 1 2 3 4 show ?thesis by blast
qed

lemma pi_gt_one: "1 < pi"
  using pi_ge_two by linarith

theorem fluxnorm_assigned_to_Normalization_witness:
  "(2::real) \<noteq> 0 \<and> accepts (5.0 * 10 ^ 3) (Mass tbl_example) \<and> accepts 8 (Channel tbl_example)
   \<and> accepts (1.8621 * 10 ^ 18 * (2.7 / 10 ^ 22) / (8 * pi * (5.0 * 10 ^ 3) ^ 2) * (1.0 / 10 ^ 3))
           (Normalization tbl_example)
   \<and> cell_fluxnorm (bind_var ''mass'' 2 (bind_var ''sigmav'' 3 (bind_var ''jfactor'' 16 nb_fresh))) =
       (None, bind_var ''fluxnorm'' (16 * 3 / (8 * pi * 2 ^ 2) * (1.0 / 10 ^ 3))
          (bind_var ''mass'' 2 (bind_var ''sigmav'' 3 (bind_var ''jfactor'' 16 nb_fresh))))
   \<and> fst (run_cells (model_cells (2.7 / 10 ^ 22) tbl_example) nb_fresh) = None
   \<and> pvalue (Normalization (dmspec (snd (run_cells (model_cells (2.7 / 10 ^ 22) tbl_example) nb_fresh)))) =
        2.513835 / 10 ^ 15 / pi"
proof -
  have h1: "accepts (5.0 * 10 ^ 3) (Mass tbl_example)"
    by (simp add: accepts_def tbl_example_def)
  have h2: "accepts 8 (Channel tbl_example)"
    by (simp add: accepts_def tbl_example_def)
  have "(2.513835 / 10 ^ 15) / pi \<le> (2.513835 / 10 ^ 15) / 1"
    by (rule divide_left_mono) (use pi_gt_one in simp_all)
  then have h3: "accepts (1.8621 * 10 ^ 18 * (2.7 / 10 ^ 22) / (8 * pi * (5.0 * 10 ^ 3) ^ 2) * (1.0 / 10 ^ 3))
           (Normalization tbl_example)"
    by (simp add: accepts_def tbl_example_def)
  let ?nb = "bind_var ''mass'' 2 (bind_var ''sigmav'' 3 (bind_var ''jfactor'' 16 nb_fresh))"
  have v: "vars ?nb ''jfactor'' = Some 16" "vars ?nb ''sigmav'' = Some 3" "vars ?nb ''mass'' = Some 2"
    "(2::real) \<noteq> 0"
    by (simp_all add: bind_var_def)
  show ?thesis
    using h1 h2 h3 fluxnorm_assigned_to_Normalization [OF h1 h2 h3 v, of nb_fresh]
    by simp
qed


subsection \<open>The flux normalization in double arithmetic\<close>

lemma rne_cert:
  assumes "\<bar>y - of_int n\<bar> < 1 / 2"
  shows "rne y = n"
proof -
  have "\<lfloor>y\<rfloor> = n \<or> \<lfloor>y\<rfloor> = n - 1"
    using assms by (auto simp: floor_eq_iff abs_less_iff)
  then show ?thesis
  proof
    assume f: "\<lfloor>y\<rfloor> = n"
    from assms have "y - of_int n < 1 / 2"
      unfolding abs_less_iff by simp
    with f show ?thesis
      by (simp add: rne_def Let_def)
  next
    assume f: "\<lfloor>y\<rfloor> = n - 1"
    from assms have "- (1 / 2) < y - of_int n"
      unfolding abs_less_iff by simp
    then have "1 / 2 < y - of_int (n - 1)"
      by simp
    with f show ?thesis
      by (simp add: rne_def Let_def)
  qed
qed

lemma rne_tie_up:
  assumes "y = of_int n - 1 / 2" and "even n"
  shows "rne y = n"
proof -
  have f: "\<lfloor>y\<rfloor> = n - 1"
    unfolding assms(1) by (simp add: floor_eq_iff)
  have "y - of_int (n - 1) = 1 / 2"
    unfolding assms(1) by simp
  with f assms(2) show ?thesis
    by (simp add: rne_def Let_def)
qed

lemma rnd_cert:
  assumes "0 < x" and "- 1074 \<le> e"
    and "2 powr of_int (e + 52) \<le> x" and "x < 2 powr of_int (e + 53)"
    and "rne (x / 2 powr of_int e) = n"
  shows "rnd x = of_int n * 2 powr of_int e"
proof -
  have "\<lfloor>log 2 x\<rfloor> = e + 52"
    using assms(1,3,4) by (subst floor_log_eq_powr_iff) (simp_all add: add.commute add.assoc)
  then have "max (\<lfloor>log 2 \<bar>x\<bar>\<rfloor> - 52) (- 1074) = e"
    using assms(1,2) by simp
  moreover have "rne (\<bar>x\<bar> / 2 powr of_int e) = n"
    using assms(1,5) by simp
  ultimately show ?thesis
    using assms(1) by (simp add: rnd_def Let_def)
qed

lemma two_powr_diff: "2 powr (real m - real k) = 2 ^ m / (2::real) ^ k"
  by (simp add: powr_diff powr_realpow)

lemma rnd_cert_neg:
  fixes k :: nat
  assumes "0 < x" and "k \<le> 1074"
    and "2 ^ 52 \<le> x * 2 ^ k" and "x * 2 ^ k < 2 ^ 53"
    and "rne (x * 2 ^ k) = n"
  shows "rnd x = of_int n / 2 ^ k"
proof -
  have p: "2 powr of_int (- int k) = 1 / (2::real) ^ k"
    by (simp add: powr_minus powr_realpow inverse_eq_divide)
  have a: "2 powr of_int (- int k + 52) = 2 ^ 52 / (2::real) ^ k"
    using two_powr_diff [of 52 k] by simp
  have b: "2 powr of_int (- int k + 53) = 2 ^ 53 / (2::real) ^ k"
    using two_powr_diff [of 53 k] by simp
  have "rnd x = of_int n * 2 powr of_int (- int k)"
  proof (rule rnd_cert)
    show "0 < x" by fact
    show "- 1074 \<le> - int k" using assms(2) by simp
    show "2 powr of_int (- int k + 52) \<le> x"
      unfolding a using assms(3) by (simp add: field_simps)
    show "x < 2 powr of_int (- int k + 53)"
      unfolding b using assms(4) by (simp add: field_simps)
    show "rne (x / 2 powr of_int (- int k)) = n"
      unfolding p using assms(5) by simp
  qed
  then show ?thesis
    unfolding p by simp
qed

lemma rnd_cert_pos:
  fixes k :: nat
  assumes "0 < x"
    and "2 ^ 52 \<le> x / 2 ^ k" and "x / 2 ^ k < 2 ^ 53"
    and "rne (x / 2 ^ k) = n"
  shows "rnd x = of_int n * 2 ^ k"
proof -
  have p: "2 powr of_int (int k) = (2::real) ^ k"
    by (simp add: powr_realpow)
  have a: "2 powr of_int (int k + 52) = 2 ^ 52 * (2::real) ^ k"
    using p by (simp add: powr_add powr_realpow [of 2 52, simplified] mult.commute)
  have b: "2 powr of_int (int k + 53) = 2 ^ 53 * (2::real) ^ k"
    using p by (simp add: powr_add powr_realpow [of 2 53, simplified] mult.commute)
  have "rnd x = of_int n * 2 powr of_int (int k)"
  proof (rule rnd_cert)
    show "0 < x" by fact
    show "- 1074 \<le> int k" by simp
    show "2 powr of_int (int k + 52) \<le> x"
      unfolding a using assms(2) by (simp add: field_simps)
    show "x < 2 powr of_int (int k + 53)"
      unfolding b using assms(3) by (simp add: field_simps)
    show "rne (x / 2 powr of_int (int k)) = n"
      unfolding p using assms(4) by simp
  qed
  then show ?thesis
    unfolding p by simp
qed

lemma dbl_jfactor: "rnd (1.8621 * 10 ^ 18) = 1.8621 * 10 ^ 18"
proof -
  have "rnd (1.8621 * 10 ^ 18) = of_int 7273828125000000 * 2 ^ 8"
  proof (rule rnd_cert_pos)
    show "rne (1.8621 * 10 ^ 18 / 2 ^ 8) = 7273828125000000"
      by (rule rne_cert) (simp add: pi_double_def)
  qed (simp_all add: pi_double_def)
  also have "\<dots> = 1.8621 * 10 ^ 18"
    by (simp add: pi_double_def)
  finally show ?thesis .
qed

lemma dbl_sigmav: "rnd (2.7 / 10 ^ 22) = 5742264941790837 / 2 ^ 124"
proof -
  have "rnd (2.7 / 10 ^ 22) = of_int 5742264941790837 / 2 ^ 124"
  proof (rule rnd_cert_neg)
    show "rne (2.7 / 10 ^ 22 * 2 ^ 124) = 5742264941790837"
      by (rule rne_cert) (simp add: pi_double_def)
  qed (simp_all add: pi_double_def)
  also have "\<dots> = 5742264941790837 / 2 ^ 124"
    by (simp add: pi_double_def)
  finally show ?thesis .
qed

lemma dbl_mass: "rnd (5.0 * 10 ^ 3) = 5.0 * 10 ^ 3"
proof -
  have "rnd (5.0 * 10 ^ 3) = of_int 5497558138880000 / 2 ^ 40"
  proof (rule rnd_cert_neg)
    show "rne (5.0 * 10 ^ 3 * 2 ^ 40) = 5497558138880000"
      by (rule rne_cert) (simp add: pi_double_def)
  qed (simp_all add: pi_double_def)
  also have "\<dots> = 5.0 * 10 ^ 3"
    by (simp add: pi_double_def)
  finally show ?thesis .
qed

lemma dbl_milli: "rnd (1.0 / 10 ^ 3) = 4611686018427388 / 2 ^ 62"
proof -
  have "rnd (1.0 / 10 ^ 3) = of_int 4611686018427388 / 2 ^ 62"
  proof (rule rnd_cert_neg)
    show "rne (1.0 / 10 ^ 3 * 2 ^ 62) = 4611686018427388"
      by (rule rne_cert) (simp add: pi_double_def)
  qed (simp_all add: pi_double_def)
  also have "\<dots> = 4611686018427388 / 2 ^ 62"
    by (simp add: pi_double_def)
  finally show ?thesis .
qed

lemma dbl_8pi: "rnd (8 * pi_double) = 8 * pi_double"
proof -
  have "rnd (8 * pi_double) = of_int 7074237752028440 / 2 ^ 48"
  proof (rule rnd_cert_neg)
    show "rne (8 * pi_double * 2 ^ 48) = 7074237752028440"
      by (rule rne_cert) (simp add: pi_double_def)
  qed (simp_all add: pi_double_def)
  also have "\<dots> = 8 * pi_double"
    by (simp add: pi_double_def)
  finally show ?thesis .
qed

lemma dbl_mass2: "rnd ((5.0 * 10 ^ 3) ^ 2) = (5.0 * 10 ^ 3) ^ 2"
proof -
  have "rnd ((5.0 * 10 ^ 3) ^ 2) = of_int 6710886400000000 / 2 ^ 28"
  proof (rule rnd_cert_neg)
    show "rne ((5.0 * 10 ^ 3) ^ 2 * 2 ^ 28) = 6710886400000000"
      by (rule rne_cert) (simp add: pi_double_def)
  qed (simp_all add: pi_double_def)
  also have "\<dots> = (5.0 * 10 ^ 3) ^ 2"
    by (simp add: pi_double_def)
  finally show ?thesis .
qed

lemma dbl_denominator: "rnd (8 * pi_double * (5.0 * 10 ^ 3) ^ 2) = 5270717853328913 / 2 ^ 23"
proof -
  have "rnd (8 * pi_double * (5.0 * 10 ^ 3) ^ 2) = of_int 5270717853328913 / 2 ^ 23"
  proof (rule rnd_cert_neg)
    show "rne (8 * pi_double * (5.0 * 10 ^ 3) ^ 2 * 2 ^ 23) = 5270717853328913"
      by (rule rne_cert) (simp add: pi_double_def)
  qed (simp_all add: pi_double_def)
  also have "\<dots> = 5270717853328913 / 2 ^ 23"
    by (simp add: pi_double_def)
  finally show ?thesis .
qed

lemma dbl_product: "rnd (1.8621 * 10 ^ 18 * (5742264941790837 / 2 ^ 124)) = 4637207088853365 / 2 ^ 63"
proof -
  have "rnd (1.8621 * 10 ^ 18 * (5742264941790837 / 2 ^ 124)) = of_int 4637207088853365 / 2 ^ 63"
  proof (rule rnd_cert_neg)
    show "rne (1.8621 * 10 ^ 18 * (5742264941790837 / 2 ^ 124) * 2 ^ 63) = 4637207088853365"
      by (rule rne_cert) (simp add: pi_double_def)
  qed (simp_all add: pi_double_def)
  also have "\<dots> = 4637207088853365 / 2 ^ 63"
    by (simp add: pi_double_def)
  finally show ?thesis .
qed

lemma dbl_quotient: "rnd (4637207088853365 / 2 ^ 63 / (5270717853328913 / 2 ^ 23)) = 7924584353992582 / 2 ^ 93"
proof -
  have "rnd (4637207088853365 / 2 ^ 63 / (5270717853328913 / 2 ^ 23)) = of_int 7924584353992582 / 2 ^ 93"
  proof (rule rnd_cert_neg)
    show "rne (4637207088853365 / 2 ^ 63 / (5270717853328913 / 2 ^ 23) * 2 ^ 93) = 7924584353992582"
      by (rule rne_cert) (simp add: pi_double_def)
  qed (simp_all add: pi_double_def)
  also have "\<dots> = 7924584353992582 / 2 ^ 93"
    by (simp add: pi_double_def)
  finally show ?thesis .
qed

lemma dbl_fluxnorm: "rnd (7924584353992582 / 2 ^ 93 * (4611686018427388 / 2 ^ 62)) = 8114774378488404 / 2 ^ 103"
proof -
  have "rnd (7924584353992582 / 2 ^ 93 * (4611686018427388 / 2 ^ 62)) = of_int 8114774378488404 / 2 ^ 103"
  proof (rule rnd_cert_neg)
    show "rne (7924584353992582 / 2 ^ 93 * (4611686018427388 / 2 ^ 62) * 2 ^ 103) = 8114774378488404"
      by (rule rne_cert) (simp add: pi_double_def)
  qed (simp_all add: pi_double_def)
  also have "\<dots> = 8114774378488404 / 2 ^ 103"
    by (simp add: pi_double_def)
  finally show ?thesis .
qed

lemma dbl_sigmav3: "rnd (3 * (5742264941790837 / 2 ^ 124)) = 8613397412686256 / 2 ^ 123"
proof -
  have "rnd (3 * (5742264941790837 / 2 ^ 124)) = of_int 8613397412686256 / 2 ^ 123"
  proof (rule rnd_cert_neg)
    show "rne (3 * (5742264941790837 / 2 ^ 124) * 2 ^ 123) = 8613397412686256"
      by (rule rne_tie_up) (simp_all add: pi_double_def)
  qed (simp_all add: pi_double_def)
  also have "\<dots> = 8613397412686256 / 2 ^ 123"
    by (simp add: pi_double_def)
  finally show ?thesis .
qed

lemma dbl_product3: "rnd (1.8621 * 10 ^ 18 * (8613397412686256 / 2 ^ 123)) = 6955810633280049 / 2 ^ 62"
proof -
  have "rnd (1.8621 * 10 ^ 18 * (8613397412686256 / 2 ^ 123)) = of_int 6955810633280049 / 2 ^ 62"
  proof (rule rnd_cert_neg)
    show "rne (1.8621 * 10 ^ 18 * (8613397412686256 / 2 ^ 123) * 2 ^ 62) = 6955810633280049"
      by (rule rne_cert) (simp add: pi_double_def)
  qed (simp_all add: pi_double_def)
  also have "\<dots> = 6955810633280049 / 2 ^ 62"
    by (simp add: pi_double_def)
  finally show ?thesis .
qed

lemma dbl_quotient3: "rnd (6955810633280049 / 2 ^ 62 / (5270717853328913 / 2 ^ 23)) = 5943438265494438 / 2 ^ 91"
proof -
  have "rnd (6955810633280049 / 2 ^ 62 / (5270717853328913 / 2 ^ 23)) = of_int 5943438265494438 / 2 ^ 91"
  proof (rule rnd_cert_neg)
    show "rne (6955810633280049 / 2 ^ 62 / (5270717853328913 / 2 ^ 23) * 2 ^ 91) = 5943438265494438"
      by (rule rne_cert) (simp add: pi_double_def)
  qed (simp_all add: pi_double_def)
  also have "\<dots> = 5943438265494438 / 2 ^ 91"
    by (simp add: pi_double_def)
  finally show ?thesis .
qed

lemma dbl_fluxnorm3: "rnd (5943438265494438 / 2 ^ 91 * (4611686018427388 / 2 ^ 62)) = 6086080783866305 / 2 ^ 101"
proof -
  have "rnd (5943438265494438 / 2 ^ 91 * (4611686018427388 / 2 ^ 62)) = of_int 6086080783866305 / 2 ^ 101"
  proof (rule rnd_cert_neg)
    show "rne (5943438265494438 / 2 ^ 91 * (4611686018427388 / 2 ^ 62) * 2 ^ 101) = 6086080783866305"
      by (rule rne_cert) (simp add: pi_double_def)
  qed (simp_all add: pi_double_def)
  also have "\<dots> = 6086080783866305 / 2 ^ 101"
    by (simp add: pi_double_def)
  finally show ?thesis .
qed

text \<open>
  C9, as stated, fails in the arithmetic of the program. With the inputs of the notebook,
  \<open>fluxnorm\<close> is the double \<open>8.001785327348295e-16\<close>; with \<open>3 * sigmav\<close> in place of
  \<open>sigmav\<close> it is the double \<open>2.4005355982044892e-15\<close>, which is not three times the
  former (three times the former is the double two units in the last place below).
\<close>

theorem fluxnorm_double_not_proportional:
  "fluxnorm_double (rnd (1.8621 * 10 ^ 18)) (rnd (2.7 / 10 ^ 22)) (rnd (5.0 * 10 ^ 3)) =
     Inr (8114774378488404 / 2 ^ 103)
   \<and> fluxnorm_double (rnd (1.8621 * 10 ^ 18)) (rnd (3 * rnd (2.7 / 10 ^ 22))) (rnd (5.0 * 10 ^ 3)) =
     Inr (6086080783866305 / 2 ^ 101)
   \<and> (6086080783866305 / 2 ^ 101 :: real) \<noteq> 3 * (8114774378488404 / 2 ^ 103)
   \<and> (8.0017853273482945 / 10 ^ 16 :: real) < 8114774378488404 / 2 ^ 103
   \<and> (8114774378488404 / 2 ^ 103 :: real) < 8.0017853273482955 / 10 ^ 16
   \<and> (2.40053559820448915 / 10 ^ 15 :: real) < 6086080783866305 / 2 ^ 101
   \<and> (6086080783866305 / 2 ^ 101 :: real) < 2.40053559820448925 / 10 ^ 15"
proof -
  have d: "(5270717853328913 / 2 ^ 23 :: real) \<noteq> 0"
    by simp
  have 1: "fluxnorm_double (rnd (1.8621 * 10 ^ 18)) (rnd (2.7 / 10 ^ 22)) (rnd (5.0 * 10 ^ 3)) =
     Inr (8114774378488404 / 2 ^ 103)"
    unfolding fluxnorm_double_def Let_def dbl_jfactor dbl_sigmav dbl_mass dbl_milli dbl_8pi
      dbl_mass2 dbl_denominator dbl_product dbl_quotient dbl_fluxnorm
    using d by (rule if_not_P)
  have 2: "fluxnorm_double (rnd (1.8621 * 10 ^ 18)) (rnd (3 * rnd (2.7 / 10 ^ 22)))
      (rnd (5.0 * 10 ^ 3)) = Inr (6086080783866305 / 2 ^ 101)"
    unfolding fluxnorm_double_def Let_def dbl_jfactor dbl_sigmav dbl_sigmav3 dbl_mass dbl_milli
      dbl_8pi dbl_mass2 dbl_denominator dbl_product3 dbl_quotient3 dbl_fluxnorm3
    using d by (rule if_not_P)
  have 3: "(6086080783866305 / 2 ^ 101 :: real) \<noteq> 3 * (8114774378488404 / 2 ^ 103)"
    by simp
  have 4: "(8.0017853273482945 / 10 ^ 16 :: real) < 8114774378488404 / 2 ^ 103"
    "(8114774378488404 / 2 ^ 103 :: real) < 8.0017853273482955 / 10 ^ 16"
    "(2.40053559820448915 / 10 ^ 15 :: real) < 6086080783866305 / 2 ^ 101"
    "(6086080783866305 / 2 ^ 101 :: real) < 2.40053559820448925 / 10 ^ 15"
    by simp_all
  from 1 2 3 4 show ?thesis
    by blast
qed


subsection \<open>The flux normalization in exact arithmetic\<close>

text \<open>
  C9, amended. Computed in exact real arithmetic, the cross section enters only as a
  multiplicative normalization. \<open>fluxnorm\<close> is linear in \<open>sigmav\<close>; with \<open>k * sigmav\<close> in
  place of \<open>sigmav\<close> the cells that build the model leave \<open>dmspec\<close> as before except that
  the value of \<open>Normalization\<close> is \<open>k\<close> times what it was (mass, channel, and the range,
  flag and scale of the normalization are the same), and so do the cells of the
  upper-limit part that recompute \<open>fluxnorm\<close> and assign it to \<open>models[srcname]\<close> (there
  for any \<open>jfactor\<close> and any mass other than zero). Both assignments are assumed to be
  accepted by the parameter; \<open>k\<close> need not be positive for the identity.
\<close>

theorem sigmav_scales_Normalization:
  assumes "accepts (5.0 * 10 ^ 3) (Mass tbl)" and "accepts 8 (Channel tbl)"
    and "accepts (fluxnorm (1.8621 * 10 ^ 18) s (5.0 * 10 ^ 3)) (Normalization tbl)"
    and "accepts (fluxnorm (1.8621 * 10 ^ 18) (k * s) (5.0 * 10 ^ 3)) (Normalization tbl)"
    and "vars nb2 ''jfactor'' = Some j" and "vars nb2 ''mass'' = Some m" and "m \<noteq> 0"
    and "accepts (fluxnorm j s m) (Normalization (models nb2))"
    and "accepts (fluxnorm j (k * s) m) (Normalization (models nb2))"
  shows "fluxnorm j (k * s) m = k * fluxnorm j s m
    \<and> fst (run_cells (model_cells s tbl) nb) = None
    \<and> fst (run_cells (model_cells (k * s) tbl) nb) = None
    \<and> dmspec (snd (run_cells (model_cells (k * s) tbl) nb)) =
        (let d = dmspec (snd (run_cells (model_cells s tbl) nb))
         in d\<lparr>Normalization := (Normalization d)\<lparr>pvalue := k * pvalue (Normalization d)\<rparr>\<rparr>)
    \<and> fst (run_cells [cell_sigmav s, cell_fluxnorm, cell_models_update] nb2) = None
    \<and> fst (run_cells [cell_sigmav (k * s), cell_fluxnorm, cell_models_update] nb2) = None
    \<and> models (snd (run_cells [cell_sigmav (k * s), cell_fluxnorm, cell_models_update] nb2)) =
        (let d = models (snd (run_cells [cell_sigmav s, cell_fluxnorm, cell_models_update] nb2))
         in d\<lparr>Normalization := (Normalization d)\<lparr>pvalue := k * pvalue (Normalization d)\<rparr>\<rparr>)"
proof -
  note a = model_cells_ok [OF assms(1,2,3), of nb]
  note b = model_cells_ok [OF assms(1,2,4), of nb]
  note c = models_update_ok [OF assms(5,6,8,7)]
  note d = models_update_ok [OF assms(5,6,9,7)]
  have 1: "fluxnorm j (k * s) m = k * fluxnorm j s m"
    by (rule fluxnorm_scale)
  have 4: "dmspec (snd (run_cells (model_cells (k * s) tbl) nb)) =
        (let d = dmspec (snd (run_cells (model_cells s tbl) nb))
         in d\<lparr>Normalization := (Normalization d)\<lparr>pvalue := k * pvalue (Normalization d)\<rparr>\<rparr>)"
    unfolding a(3) b(3) by (simp add: fluxnorm_scale)
  have 7: "models (snd (run_cells [cell_sigmav (k * s), cell_fluxnorm, cell_models_update] nb2)) =
        (let d = models (snd (run_cells [cell_sigmav s, cell_fluxnorm, cell_models_update] nb2))
         in d\<lparr>Normalization := (Normalization d)\<lparr>pvalue := k * pvalue (Normalization d)\<rparr>\<rparr>)"
    unfolding c d by (simp add: fluxnorm_scale)
  have 5: "fst (run_cells [cell_sigmav s, cell_fluxnorm, cell_models_update] nb2) = None"
    unfolding c by simp
  have 6: "fst (run_cells [cell_sigmav (k * s), cell_fluxnorm, cell_models_update] nb2) = None"
    unfolding d by simp
  from 1 a(1) b(1) 4 5 6 7 show ?thesis by blast
qed

lemma fluxnorm_over_pi: "fluxnorm j s m = (j * s / (8 * m ^ 2) * (1.0 / 10 ^ 3)) / pi"
  by (simp add: fluxnorm_def)

lemma tbl_example_accepts:
  assumes "0 \<le> c" and "c \<le> 1000"
  shows "accepts (c / pi) (Normalization tbl_example)"
proof -
  have "c / pi \<le> c / 1"
    by (rule divide_left_mono) (use assms pi_gt_one in simp_all)
  moreover have "0 \<le> c / pi"
    using assms by simp
  ultimately show ?thesis
    using assms by (simp add: accepts_def tbl_example_def not_less)
qed

theorem sigmav_scales_Normalization_witness:
  "(2::real) \<noteq> 0 \<and> accepts (5.0 * 10 ^ 3) (Mass tbl_example) \<and> accepts 8 (Channel tbl_example)
   \<and> accepts (fluxnorm (1.8621 * 10 ^ 18) (2.7 / 10 ^ 22) (5.0 * 10 ^ 3)) (Normalization tbl_example)
   \<and> accepts (fluxnorm (1.8621 * 10 ^ 18) (3 * (2.7 / 10 ^ 22)) (5.0 * 10 ^ 3)) (Normalization tbl_example)
   \<and> pvalue (Normalization (dmspec (snd (run_cells (model_cells (3 * (2.7 / 10 ^ 22)) tbl_example) nb_fresh)))) =
       3 * pvalue (Normalization (dmspec (snd (run_cells (model_cells (2.7 / 10 ^ 22) tbl_example) nb_fresh))))
   \<and> Mass (dmspec (snd (run_cells (model_cells (3 * (2.7 / 10 ^ 22)) tbl_example) nb_fresh))) =
       Mass (dmspec (snd (run_cells (model_cells (2.7 / 10 ^ 22) tbl_example) nb_fresh)))
   \<and> pvalue (Normalization (models (snd (run_cells
         [cell_sigmav (3 * (2.7 / 10 ^ 22)), cell_fluxnorm, cell_models_update]
         (bind_var ''mass'' 2 (bind_var ''jfactor'' 16 nb_fresh)))))) = 3 * fluxnorm 16 (2.7 / 10 ^ 22) 2"
proof -
  have h1: "accepts (5.0 * 10 ^ 3) (Mass tbl_example)"
    by (simp add: accepts_def tbl_example_def)
  have h2: "accepts 8 (Channel tbl_example)"
    by (simp add: accepts_def tbl_example_def)
  have h3: "accepts (fluxnorm (1.8621 * 10 ^ 18) (2.7 / 10 ^ 22) (5.0 * 10 ^ 3)) (Normalization tbl_example)"
    unfolding fluxnorm_over_pi by (rule tbl_example_accepts) simp_all
  have h4: "accepts (fluxnorm (1.8621 * 10 ^ 18) (3 * (2.7 / 10 ^ 22)) (5.0 * 10 ^ 3)) (Normalization tbl_example)"
    unfolding fluxnorm_over_pi by (rule tbl_example_accepts) simp_all
  let ?nb = "bind_var ''mass'' 2 (bind_var ''jfactor'' 16 nb_fresh)"
  have v: "vars ?nb ''jfactor'' = Some 16" "vars ?nb ''mass'' = Some 2" "(2::real) \<noteq> 0"
    by (simp_all add: bind_var_def)
  have m: "models ?nb = tbl_example"
    by (simp add: bind_var_def nb_fresh_def)
  have h5: "accepts (fluxnorm 16 (2.7 / 10 ^ 22) 2) (Normalization (models ?nb))"
    unfolding m fluxnorm_over_pi by (rule tbl_example_accepts) simp_all
  have h6: "accepts (fluxnorm 16 (3 * (2.7 / 10 ^ 22)) 2) (Normalization (models ?nb))"
    unfolding m fluxnorm_over_pi by (rule tbl_example_accepts) simp_all
  note t = sigmav_scales_Normalization [OF h1 h2 h3 h4 v h5 h6, of nb_fresh]
  have u: "pvalue (Normalization (models (snd (run_cells
      [cell_sigmav (2.7 / 10 ^ 22), cell_fluxnorm, cell_models_update] ?nb)))) =
      fluxnorm 16 (2.7 / 10 ^ 22) 2"
    unfolding models_update_ok [OF v(1,2) h5 v(3)] by simp
  have 5: "pvalue (Normalization (dmspec (snd (run_cells (model_cells (3 * (2.7 / 10 ^ 22)) tbl_example) nb_fresh)))) =
       3 * pvalue (Normalization (dmspec (snd (run_cells (model_cells (2.7 / 10 ^ 22) tbl_example) nb_fresh))))"
    using t by (simp add: Let_def)
  have 6: "Mass (dmspec (snd (run_cells (model_cells (3 * (2.7 / 10 ^ 22)) tbl_example) nb_fresh))) =
       Mass (dmspec (snd (run_cells (model_cells (2.7 / 10 ^ 22) tbl_example) nb_fresh)))"
    using t by (simp add: Let_def)
  have 7: "pvalue (Normalization (models (snd (run_cells
         [cell_sigmav (3 * (2.7 / 10 ^ 22)), cell_fluxnorm, cell_models_update] ?nb)))) =
       3 * fluxnorm 16 (2.7 / 10 ^ 22) 2"
    using t u by (simp add: Let_def)
  from v(3) h1 h2 h3 h4 5 6 7 show ?thesis by blast
qed

subsection \<open>The scan loop\<close>

lemma bind_var_frame [simp]:
  "like (bind_var x v nb) = like nb"
  "ll_values (bind_var x v nb) = ll_values nb"
  "fit_calls (bind_var x v nb) = fit_calls nb"
  "norma_r (bind_var x v nb) = norma_r nb"
  by (simp_all add: bind_var_def)

lemma same_declaration_refl [simp]: "same_declaration p p"
  by (simp add: same_declaration_def)

lemma same_declaration_trans:
  "same_declaration p q \<Longrightarrow> same_declaration q r \<Longrightarrow> same_declaration p r"
  by (simp add: same_declaration_def)

lemma same_declaration_refit [simp]: "same_declaration (refit v (p\<lparr>pvalue := w\<rparr>)) p"
  by (simp add: same_declaration_def refit_def)

lemma accepts_same_declaration:
  "same_declaration p q \<Longrightarrow> accepts v p = accepts v q"
  by (simp add: same_declaration_def accepts_def)

text \<open>One turn of the loop, by its three outcomes.\<close>

lemma scan_body_reject:
  assumes "\<not> accepts v (scanned nb)"
  shows "scan_body opt v nb = (Some OutOfRangeError, bind_var ''norma'' v nb)"
  using assms by (simp add: scan_body_def scanned_def par_value_def accepts_def)

lemma scan_body_fail:
  assumes "accepts v (scanned nb)"
    and "fst (opt ((src (like nb))\<lparr>Normalization := (scanned nb)\<lparr>pvalue := v\<rparr>\<rparr>) (others (like nb))) = None"
  shows "fst (scan_body opt v nb) = Some ExternalEvaluationFailure"
    and "fit_calls (snd (scan_body opt v nb)) =
           fit_calls nb @ [((src (like nb))\<lparr>Normalization := (scanned nb)\<lparr>pvalue := v\<rparr>\<rparr>, others (like nb))]"
    and "ll_values (snd (scan_body opt v nb)) = ll_values nb"
    and "norma_r (snd (scan_body opt v nb)) = norma_r nb"
    and "same_declaration (scanned (snd (scan_body opt v nb))) (scanned nb)"
  using assms
  by (auto simp: scan_body_def scanned_def par_value_accepts like_run_def Let_def
      set_Normalization_def same_declaration_def refit_def split: prod.splits option.splits)

lemma scan_body_ok:
  assumes "accepts v (scanned nb)"
    and "fst (opt ((src (like nb))\<lparr>Normalization := (scanned nb)\<lparr>pvalue := v\<rparr>\<rparr>) (others (like nb))) = Some r"
  shows "fst (scan_body opt v nb) = None"
    and "fit_calls (snd (scan_body opt v nb)) =
           fit_calls nb @ [((src (like nb))\<lparr>Normalization := (scanned nb)\<lparr>pvalue := v\<rparr>\<rparr>, others (like nb))]"
    and "ll_values (snd (scan_body opt v nb)) = ll_values nb @ [logL r]"
    and "norma_r (snd (scan_body opt v nb)) = norma_r nb"
    and "same_declaration (scanned (snd (scan_body opt v nb))) (scanned nb)"
  using assms
  by (auto simp: scan_body_def scanned_def par_value_accepts like_run_def Let_def
      set_Normalization_def same_declaration_def refit_def split: prod.splits option.splits)

lemma scan_body_same_declaration:
  "same_declaration (scanned (snd (scan_body opt v nb))) (scanned nb)"
proof (cases "accepts v (scanned nb)")
  case False
  then show ?thesis by (simp add: scan_body_reject scanned_def)
next
  case True
  then show ?thesis
    by (cases "fst (opt ((src (like nb))\<lparr>Normalization := (scanned nb)\<lparr>pvalue := v\<rparr>\<rparr>) (others (like nb)))")
      (simp_all add: scan_body_fail(5) scan_body_ok(5))
qed

lemma trial_of_call_at [simp]: "trial_of (call_at v nb) = v"
  by (simp add: trial_of_def call_at_def)

lemma call_at_same_declaration [simp]:
  "same_declaration (Normalization (fst (call_at v nb))) (scanned nb)"
  by (simp add: call_at_def scanned_def same_declaration_def)

lemma scan_loop_Cons_cases:
  obtains (reject) "\<not> accepts v (scanned nb)"
      "scan_loop opt (v # rest) nb = (Some OutOfRangeError, bind_var ''norma'' v nb)"
  | (fail) "accepts v (scanned nb)" "fit_result opt (call_at v nb) = None"
      "fst (scan_loop opt (v # rest) nb) = Some ExternalEvaluationFailure"
      "fit_calls (snd (scan_loop opt (v # rest) nb)) = fit_calls nb @ [call_at v nb]"
      "ll_values (snd (scan_loop opt (v # rest) nb)) = ll_values nb"
      "norma_r (snd (scan_loop opt (v # rest) nb)) = norma_r nb"
      "same_declaration (scanned (snd (scan_loop opt (v # rest) nb))) (scanned nb)"
  | (ok) l where "accepts v (scanned nb)" "fit_result opt (call_at v nb) = Some l"
      "scan_loop opt (v # rest) nb = scan_loop opt rest (snd (scan_body opt v nb))"
      "fit_calls (snd (scan_body opt v nb)) = fit_calls nb @ [call_at v nb]"
      "ll_values (snd (scan_body opt v nb)) = ll_values nb @ [l]"
      "norma_r (snd (scan_body opt v nb)) = norma_r nb"
      "same_declaration (scanned (snd (scan_body opt v nb))) (scanned nb)"
proof (cases "accepts v (scanned nb)")
  case False
  then have "scan_loop opt (v # rest) nb = (Some OutOfRangeError, bind_var ''norma'' v nb)"
    by (simp add: scan_body_reject)
  with False show ?thesis by (rule reject)
next
  case True
  show ?thesis
  proof (cases "fst (opt ((src (like nb))\<lparr>Normalization := (scanned nb)\<lparr>pvalue := v\<rparr>\<rparr>) (others (like nb)))")
    case None
    note b = scan_body_fail [where opt = opt, OF True None]
    have e: "scan_loop opt (v # rest) nb = scan_body opt v nb"
      using b(1) by (cases "scan_body opt v nb") simp
    have "fit_result opt (call_at v nb) = None"
      using None by (simp add: fit_result_def call_at_def scanned_def)
    then show ?thesis
      using True b unfolding e [symmetric] call_at_def scanned_def
      by (intro fail) (simp_all add: call_at_def scanned_def)
  next
    case (Some r)
    note b = scan_body_ok [where opt = opt, OF True Some]
    have e: "scan_loop opt (v # rest) nb = scan_loop opt rest (snd (scan_body opt v nb))"
      using b(1) by (cases "scan_body opt v nb") simp
    have "fit_result opt (call_at v nb) = Some (logL r)"
      using Some by (simp add: fit_result_def call_at_def scanned_def)
    then show ?thesis
      using True e b
      by (intro ok [of "logL r"]) (simp_all add: call_at_def scanned_def)
  qed
qed

declare scan_loop.simps(2) [simp del]

lemma scanned_bind_var [simp]: "scanned (bind_var x v nb) = scanned nb"
  by (simp add: scanned_def)

lemma scan_loop_frame:
  "same_declaration (scanned (snd (scan_loop opt ts nb))) (scanned nb)
   \<and> norma_r (snd (scan_loop opt ts nb)) = norma_r nb"
proof (induction ts arbitrary: nb)
  case Nil
  show ?case by simp
next
  case (Cons v rest)
  show ?case
  proof (cases rule: scan_loop_Cons_cases [of v nb opt rest])
    case reject
    then show ?thesis by simp
  next
    case fail
    then show ?thesis by simp
  next
    case (ok l)
    from Cons.IH [of "snd (scan_body opt v nb)"] ok(6,7) show ?thesis
      unfolding ok(3) by (auto intro: same_declaration_trans)
  qed
qed

lemma scan_loop_calls:
  "\<exists>cs. fit_calls (snd (scan_loop opt ts nb)) = fit_calls nb @ cs
     \<and> length cs \<le> length ts \<and> map trial_of cs = take (length cs) ts
     \<and> (\<forall>c \<in> set cs. same_declaration (Normalization (fst c)) (scanned nb))"
proof (induction ts arbitrary: nb)
  case Nil
  show ?case by simp
next
  case (Cons v rest)
  show ?case
  proof (cases rule: scan_loop_Cons_cases [of v nb opt rest])
    case reject
    then show ?thesis by simp
  next
    case fail
    show ?thesis
      by (rule exI [of _ "[call_at v nb]"]) (simp add: fail(4))
  next
    case (ok l)
    from Cons.IH [of "snd (scan_body opt v nb)"] obtain cs where
      cs: "fit_calls (snd (scan_loop opt rest (snd (scan_body opt v nb)))) =
             fit_calls (snd (scan_body opt v nb)) @ cs"
        "length cs \<le> length rest" "map trial_of cs = take (length cs) rest"
        "\<forall>c \<in> set cs. same_declaration (Normalization (fst c)) (scanned (snd (scan_body opt v nb)))"
      by blast
    have "\<forall>c \<in> set cs. same_declaration (Normalization (fst c)) (scanned nb)"
      using cs(4) ok(7) by (blast intro: same_declaration_trans)
    then show ?thesis
      unfolding ok(3) using cs(1,2,3) ok(4)
      by (intro exI [of _ "call_at v nb # cs"]) simp
  qed
qed

lemma scan_loop_None:
  assumes "fst (scan_loop opt ts nb) = None"
  shows "\<exists>cs vs. fit_calls (snd (scan_loop opt ts nb)) = fit_calls nb @ cs
     \<and> ll_values (snd (scan_loop opt ts nb)) = ll_values nb @ vs
     \<and> map trial_of cs = ts \<and> map (fit_result opt) cs = map Some vs"
  using assms
proof (induction ts arbitrary: nb)
  case Nil
  then show ?case by simp
next
  case (Cons v rest)
  show ?case
  proof (cases rule: scan_loop_Cons_cases [of v nb opt rest])
    case reject
    with Cons.prems show ?thesis by simp
  next
    case fail
    with Cons.prems show ?thesis by simp
  next
    case (ok l)
    from Cons.prems have "fst (scan_loop opt rest (snd (scan_body opt v nb))) = None"
      unfolding ok(3) .
    from Cons.IH [OF this] obtain cs vs where
      cs: "fit_calls (snd (scan_loop opt rest (snd (scan_body opt v nb)))) =
             fit_calls (snd (scan_body opt v nb)) @ cs"
        "ll_values (snd (scan_loop opt rest (snd (scan_body opt v nb)))) =
             ll_values (snd (scan_body opt v nb)) @ vs"
        "map trial_of cs = rest" "map (fit_result opt) cs = map Some vs"
      by blast
    show ?thesis
      unfolding ok(3) using cs ok(2,4,5)
      by (intro exI [of _ "call_at v nb # cs"] exI [of _ "l # vs"]) simp
  qed
qed

lemma scan_loop_Some:
  assumes "fst (scan_loop opt ts nb) = Some e"
  shows "\<exists>cs vs. fit_calls (snd (scan_loop opt ts nb)) = fit_calls nb @ cs
     \<and> ll_values (snd (scan_loop opt ts nb)) = ll_values nb @ vs
     \<and> length vs < length ts
     \<and> map trial_of cs = take (length cs) ts
     \<and> map (fit_result opt) (take (length vs) cs) = map Some vs
     \<and> (e = ExternalEvaluationFailure \<and> length cs = Suc (length vs)
          \<and> fit_result opt (last cs) = None
        \<or> e = OutOfRangeError \<and> length cs = length vs
          \<and> \<not> accepts (ts ! length vs) (scanned nb))"
  using assms
proof (induction ts arbitrary: nb)
  case Nil
  then show ?case by simp
next
  case (Cons v rest)
  show ?case
  proof (cases rule: scan_loop_Cons_cases [of v nb opt rest])
    case reject
    with Cons.prems show ?thesis by simp
  next
    case fail
    with Cons.prems have e: "e = ExternalEvaluationFailure" by simp
    show ?thesis
      using fail(2,4,5) e
      by (intro exI [of _ "[call_at v nb]"] exI [of _ "[]"]) simp
  next
    case (ok l)
    from Cons.prems have "fst (scan_loop opt rest (snd (scan_body opt v nb))) = Some e"
      unfolding ok(3) .
    from Cons.IH [OF this] obtain cs vs where
      cs: "fit_calls (snd (scan_loop opt rest (snd (scan_body opt v nb)))) =
             fit_calls (snd (scan_body opt v nb)) @ cs"
        "ll_values (snd (scan_loop opt rest (snd (scan_body opt v nb)))) =
             ll_values (snd (scan_body opt v nb)) @ vs"
        "length vs < length rest"
        "map trial_of cs = take (length cs) rest"
        "map (fit_result opt) (take (length vs) cs) = map Some vs"
        "e = ExternalEvaluationFailure \<and> length cs = Suc (length vs)
          \<and> fit_result opt (last cs) = None
        \<or> e = OutOfRangeError \<and> length cs = length vs
          \<and> \<not> accepts (rest ! length vs) (scanned (snd (scan_body opt v nb)))"
      by blast
    have acc: "accepts x (scanned (snd (scan_body opt v nb))) = accepts x (scanned nb)" for x
      by (rule accepts_same_declaration [OF ok(7)])
    have "e = ExternalEvaluationFailure \<and> length (call_at v nb # cs) = Suc (length (l # vs))
          \<and> fit_result opt (last (call_at v nb # cs)) = None
        \<or> e = OutOfRangeError \<and> length (call_at v nb # cs) = length (l # vs)
          \<and> \<not> accepts ((v # rest) ! length (l # vs)) (scanned nb)"
      using cs(6) unfolding acc by auto
    then show ?thesis
      unfolding ok(3) using cs(1-5) ok(2,4,5)
      by (intro exI [of _ "call_at v nb # cs"] exI [of _ "l # vs"]) simp
  qed
qed

lemma scan_loop_never_rejects:
  assumes "\<forall>v \<in> set ts. accepts v (scanned nb)"
  shows "fst (scan_loop opt ts nb) \<noteq> Some OutOfRangeError"
  using assms
proof (induction ts arbitrary: nb)
  case Nil
  show ?case by simp
next
  case (Cons v rest)
  show ?case
  proof (cases rule: scan_loop_Cons_cases [of v nb opt rest])
    case reject
    with Cons.prems show ?thesis by simp
  next
    case fail
    then show ?thesis by simp
  next
    case (ok l)
    have "\<forall>x \<in> set rest. accepts x (scanned (snd (scan_body opt v nb)))"
      using Cons.prems accepts_same_declaration [OF ok(7)] by simp
    from Cons.IH [OF this] show ?thesis
      unfolding ok(3) .
  qed
qed

lemma scan_loop_completes:
  assumes "\<forall>v \<in> set ts. accepts v (scanned nb)" and "\<forall>s ot. fst (opt s ot) \<noteq> None"
  shows "fst (scan_loop opt ts nb) = None"
  using assms(1)
proof (induction ts arbitrary: nb)
  case Nil
  show ?case by simp
next
  case (Cons v rest)
  show ?case
  proof (cases rule: scan_loop_Cons_cases [of v nb opt rest])
    case reject
    with Cons.prems show ?thesis by simp
  next
    case fail
    from fail(2) have "fst (opt (fst (call_at v nb)) (snd (call_at v nb))) = None"
      by (simp add: fit_result_def)
    with assms(2) show ?thesis by blast
  next
    case (ok l)
    have "\<forall>x \<in> set rest. accepts x (scanned (snd (scan_body opt v nb)))"
      using Cons.prems accepts_same_declaration [OF ok(7)] by simp
    from Cons.IH [OF this] show ?thesis
      unfolding ok(3) .
  qed
qed


subsection \<open>The profile scanner\<close>

lemma profile_scanner_unfold:
  "profile_scanner opt nb =
     scan_loop opt (norma_r nb) ((snd (cell_fix nb))\<lparr>ll_values := [], fit_calls := []\<rparr>)"
  by (simp add: profile_scanner_def cell_fix_def cell_scan_def split: prod.splits option.splits)

lemma scanned_start:
  "scanned ((snd (cell_fix nb))\<lparr>ll_values := [], fit_calls := []\<rparr>) = par_fix (scanned nb)"
  by (simp add: cell_fix_def scanned_def set_Normalization_def)

lemma accepts_par_fix [simp]: "accepts v (par_fix p)"
  by (simp add: accepts_def par_fix_def)

lemma same_declaration_fixed:
  "same_declaration p (par_fix q) \<Longrightarrow> \<not> pfree p"
  by (simp add: same_declaration_def par_fix_def)

lemma profile_scanner_not_rejected:
  "fst (profile_scanner opt nb) \<noteq> Some OutOfRangeError"
  unfolding profile_scanner_unfold
  by (rule scan_loop_never_rejects) (simp add: scanned_start)

lemma profile_scanner_None:
  assumes "fst (profile_scanner opt nb) = None"
  shows "map trial_of (fit_calls (snd (profile_scanner opt nb))) = norma_r nb"
    and "map (fit_result opt) (fit_calls (snd (profile_scanner opt nb))) =
           map Some (ll_values (snd (profile_scanner opt nb)))"
proof -
  from scan_loop_None [OF assms [unfolded profile_scanner_unfold]]
  obtain cs vs where
    "fit_calls (snd (profile_scanner opt nb)) = cs" "ll_values (snd (profile_scanner opt nb)) = vs"
    "map trial_of cs = norma_r nb" "map (fit_result opt) cs = map Some vs"
    unfolding profile_scanner_unfold by auto
  then show "map trial_of (fit_calls (snd (profile_scanner opt nb))) = norma_r nb"
    and "map (fit_result opt) (fit_calls (snd (profile_scanner opt nb))) =
           map Some (ll_values (snd (profile_scanner opt nb)))"
    by simp_all
qed

lemma profile_scanner_Some:
  assumes "fst (profile_scanner opt nb) = Some e"
  shows "e = ExternalEvaluationFailure"
    and "length (ll_values (snd (profile_scanner opt nb))) < length (norma_r nb)"
    and "length (fit_calls (snd (profile_scanner opt nb))) =
           Suc (length (ll_values (snd (profile_scanner opt nb))))"
    and "map trial_of (fit_calls (snd (profile_scanner opt nb))) =
           take (length (fit_calls (snd (profile_scanner opt nb)))) (norma_r nb)"
    and "fit_result opt (last (fit_calls (snd (profile_scanner opt nb)))) = None"
    and "map (fit_result opt) (butlast (fit_calls (snd (profile_scanner opt nb)))) =
           map Some (ll_values (snd (profile_scanner opt nb)))"
proof -
  let ?st = "(snd (cell_fix nb))\<lparr>ll_values := [], fit_calls := []\<rparr>"
  from scan_loop_Some [OF assms [unfolded profile_scanner_unfold]]
  obtain cs vs where
    cs: "fit_calls (snd (profile_scanner opt nb)) = cs" "ll_values (snd (profile_scanner opt nb)) = vs"
    "length vs < length (norma_r nb)" "map trial_of cs = take (length cs) (norma_r nb)"
    "map (fit_result opt) (take (length vs) cs) = map Some vs"
    "e = ExternalEvaluationFailure \<and> length cs = Suc (length vs) \<and> fit_result opt (last cs) = None
        \<or> e = OutOfRangeError \<and> length cs = length vs
          \<and> \<not> accepts (norma_r nb ! length vs) (scanned ?st)"
    unfolding profile_scanner_unfold by auto
  have "accepts (norma_r nb ! length vs) (scanned ?st)"
    by (simp add: scanned_start)
  with cs(6) have e: "e = ExternalEvaluationFailure" "length cs = Suc (length vs)"
    "fit_result opt (last cs) = None"
    by auto
  have "take (length vs) cs = butlast cs"
    using e(2) by (simp add: butlast_conv_take)
  with cs e show "e = ExternalEvaluationFailure"
    and "length (ll_values (snd (profile_scanner opt nb))) < length (norma_r nb)"
    and "length (fit_calls (snd (profile_scanner opt nb))) =
           Suc (length (ll_values (snd (profile_scanner opt nb))))"
    and "map trial_of (fit_calls (snd (profile_scanner opt nb))) =
           take (length (fit_calls (snd (profile_scanner opt nb)))) (norma_r nb)"
    and "fit_result opt (last (fit_calls (snd (profile_scanner opt nb)))) = None"
    and "map (fit_result opt) (butlast (fit_calls (snd (profile_scanner opt nb)))) =
           map Some (ll_values (snd (profile_scanner opt nb)))"
    by simp_all
qed

lemma profile_scanner_completes:
  assumes "\<forall>s ot. fst (opt s ot) \<noteq> None"
  shows "fst (profile_scanner opt nb) = None"
  unfolding profile_scanner_unfold
  by (rule scan_loop_completes [OF _ assms]) (simp add: scanned_start)

lemma profile_scanner_fixed:
  "\<not> pfree (scanned (snd (profile_scanner opt nb)))"
  "c \<in> set (fit_calls (snd (profile_scanner opt nb))) \<Longrightarrow> \<not> pfree (Normalization (fst c))"
proof -
  let ?st = "(snd (cell_fix nb))\<lparr>ll_values := [], fit_calls := []\<rparr>"
  have "same_declaration (scanned (snd (scan_loop opt (norma_r nb) ?st))) (scanned ?st)"
    using scan_loop_frame [of opt "norma_r nb" ?st] by simp
  then show "\<not> pfree (scanned (snd (profile_scanner opt nb)))"
    unfolding profile_scanner_unfold scanned_start by (rule same_declaration_fixed)
  assume c: "c \<in> set (fit_calls (snd (profile_scanner opt nb)))"
  from scan_loop_calls [of opt "norma_r nb" ?st] obtain cs where
    "fit_calls (snd (scan_loop opt (norma_r nb) ?st)) = cs"
    "\<forall>c \<in> set cs. same_declaration (Normalization (fst c)) (scanned ?st)"
    by auto
  with c have "same_declaration (Normalization (fst c)) (scanned ?st)"
    unfolding profile_scanner_unfold by blast
  then show "\<not> pfree (Normalization (fst c))"
    unfolding scanned_start by (rule same_declaration_fixed)
qed

text \<open>Running the scanner on the concrete inputs.\<close>

lemmas scan_eval =
  profile_scanner_def cell_fix_def cell_scan_def scan_loop.simps(2) scan_body_def like_run_def
  par_value_def par_fix_def refit_def set_Normalization_def bind_var_def Let_def
  opt_echo_def opt_fail_at_def nb_fresh_def like_example_def tbl_example_def

lemma scan_three_fail:
  "fst (profile_scanner (opt_fail_at 2) nb_three) = Some ExternalEvaluationFailure"
  "ll_values (snd (profile_scanner (opt_fail_at 2) nb_three)) = [1]"
  "map trial_of (fit_calls (snd (profile_scanner (opt_fail_at 2) nb_three))) = [1, 2]"
  by (simp_all add: scan_eval nb_three_def trial_of_def)

lemma scan_ten_fail:
  "fst (profile_scanner (opt_fail_at 5) nb_ten) = Some ExternalEvaluationFailure"
  "ll_values (snd (profile_scanner (opt_fail_at 5) nb_ten)) = [1, 2, 3, 4]"
  by (simp_all add: scan_eval nb_ten_def)

lemma scan_three_echo:
  "fst (profile_scanner opt_echo nb_three) = None"
  "ll_values (snd (profile_scanner opt_echo nb_three)) = [1, 2, 3]"
  "map trial_of (fit_calls (snd (profile_scanner opt_echo nb_three))) = [1, 2, 3]"
  by (simp_all add: scan_eval nb_three_def trial_of_def)

subsection \<open>Claims about the profile scanner\<close>

text \<open>
  C4, as stated, fails: a scan of ten trial values in which the optimizer fails at the
  fifth does not return ten points with one of them flagged. The cell stops with the
  exception, and \<open>ll_values\<close> holds the four values recorded before it.
\<close>

theorem scan_ten_one_failure:
  "length (norma_r nb_ten) = 10
   \<and> fst (profile_scanner (opt_fail_at 5) nb_ten) = Some ExternalEvaluationFailure
   \<and> ll_values (snd (profile_scanner (opt_fail_at 5) nb_ten)) = [1, 2, 3, 4]
   \<and> length (ll_values (snd (profile_scanner (opt_fail_at 5) nb_ten))) \<noteq> 10"
proof -
  have "length (norma_r nb_ten) = 10"
    by (simp add: nb_ten_def)
  then show ?thesis
    by (simp add: scan_ten_fail)
qed

text \<open>
  C4, amended. The loop has no handler for a failing fit. The scanner ends with an
  exception exactly when the optimizer fails on one of the inputs it is invoked on; the
  exception is then \<open>ExternalEvaluationFailure\<close>, raised at the first failing trial value:
  the calls made are those for an initial part of the trial sequence, the optimizer fails
  on the last of them and succeeded on all before it, \<open>ll_values\<close> holds exactly the
  log-likelihoods of those earlier calls (fewer points than trial values, none of them
  flagged), and no later trial value is attempted.
\<close>

theorem failed_fit_aborts_scan:
  "(fst (profile_scanner opt nb) \<noteq> None \<longleftrightarrow>
      (\<exists>c \<in> set (fit_calls (snd (profile_scanner opt nb))). fit_result opt c = None))
   \<and> (fst (profile_scanner opt nb) \<noteq> None \<longrightarrow>
        fst (profile_scanner opt nb) = Some ExternalEvaluationFailure
        \<and> length (ll_values (snd (profile_scanner opt nb))) < length (norma_r nb)
        \<and> length (fit_calls (snd (profile_scanner opt nb))) =
            Suc (length (ll_values (snd (profile_scanner opt nb))))
        \<and> map trial_of (fit_calls (snd (profile_scanner opt nb))) =
            take (length (fit_calls (snd (profile_scanner opt nb)))) (norma_r nb)
        \<and> fit_result opt (last (fit_calls (snd (profile_scanner opt nb)))) = None
        \<and> map (fit_result opt) (butlast (fit_calls (snd (profile_scanner opt nb)))) =
            map Some (ll_values (snd (profile_scanner opt nb))))"
proof (cases "fst (profile_scanner opt nb)")
  case None
  have "fit_result opt c \<noteq> None" if "c \<in> set (fit_calls (snd (profile_scanner opt nb)))" for c
  proof -
    have "fit_result opt c \<in> set (map (fit_result opt) (fit_calls (snd (profile_scanner opt nb))))"
      using that by simp
    then show ?thesis
      unfolding profile_scanner_None(2) [OF None] by auto
  qed
  with None show ?thesis by auto
next
  case (Some e)
  note f = profile_scanner_Some [OF Some]
  have "fit_calls (snd (profile_scanner opt nb)) \<noteq> []"
    using f(3) by auto
  then have "last (fit_calls (snd (profile_scanner opt nb))) \<in> set (fit_calls (snd (profile_scanner opt nb)))"
    by (rule last_in_set)
  with f(5) have "\<exists>c \<in> set (fit_calls (snd (profile_scanner opt nb))). fit_result opt c = None"
    by blast
  with Some f show ?thesis by simp
qed

theorem failed_fit_aborts_scan_witness:
  "fst (profile_scanner (opt_fail_at 2) nb_three) = Some ExternalEvaluationFailure
   \<and> norma_r nb_three = [1, 2, 3]
   \<and> ll_values (snd (profile_scanner (opt_fail_at 2) nb_three)) = [1]
   \<and> map trial_of (fit_calls (snd (profile_scanner (opt_fail_at 2) nb_three))) = [1, 2]
   \<and> fit_result (opt_fail_at 2) (last (fit_calls (snd (profile_scanner (opt_fail_at 2) nb_three)))) = None"
proof -
  have n: "norma_r nb_three = [1, 2, 3]"
    by (simp add: nb_three_def)
  have s: "fst (profile_scanner (opt_fail_at 2) nb_three) \<noteq> None"
    by (simp add: scan_three_fail(1))
  have "fit_result (opt_fail_at 2)
      (last (fit_calls (snd (profile_scanner (opt_fail_at 2) nb_three)))) = None"
    using failed_fit_aborts_scan [of "opt_fail_at 2" nb_three] s by blast
  with n scan_three_fail show ?thesis
    by blast
qed

text \<open>
  C5, as stated, fails: with three trial values and an optimizer that fails at the
  second, the optimizer is invoked twice, not three times, and one point is recorded.
\<close>

theorem scan_three_stops_early:
  "length (norma_r nb_three) = 3
   \<and> fst (profile_scanner (opt_fail_at 2) nb_three) = Some ExternalEvaluationFailure
   \<and> length (fit_calls (snd (profile_scanner (opt_fail_at 2) nb_three))) = 2
   \<and> length (ll_values (snd (profile_scanner (opt_fail_at 2) nb_three))) = 1"
proof -
  have "length (fit_calls (snd (profile_scanner (opt_fail_at 2) nb_three))) = 2"
    using arg_cong [OF scan_three_fail(3), of length] by simp
  moreover have "length (norma_r nb_three) = 3"
    by (simp add: nb_three_def)
  ultimately show ?thesis
    by (simp add: scan_three_fail)
qed

text \<open>
  C5, amended. When no evaluation raises during the scan, the scanner invokes the
  optimizer once per trial value and in the order of the trial sequence (the i-th call is
  made on the model whose normalization is the i-th trial value), and records one point
  per trial value in that order (the i-th entry of \<open>ll_values\<close> is the log-likelihood the
  optimizer returned on the i-th call). With an optimizer that never fails, no
  evaluation raises.
\<close>

theorem scan_visits_every_trial_in_order:
  "(fst (profile_scanner opt nb) = None \<longrightarrow>
      length (fit_calls (snd (profile_scanner opt nb))) = length (norma_r nb)
      \<and> length (ll_values (snd (profile_scanner opt nb))) = length (norma_r nb)
      \<and> map trial_of (fit_calls (snd (profile_scanner opt nb))) = norma_r nb
      \<and> map (fit_result opt) (fit_calls (snd (profile_scanner opt nb))) =
          map Some (ll_values (snd (profile_scanner opt nb))))
   \<and> ((\<forall>s ot. fst (opt s ot) \<noteq> None) \<longrightarrow> fst (profile_scanner opt nb) = None)"
proof (intro conjI impI)
  assume n: "fst (profile_scanner opt nb) = None"
  note f = profile_scanner_None [OF n]
  show t: "map trial_of (fit_calls (snd (profile_scanner opt nb))) = norma_r nb"
    by (rule f(1))
  show r: "map (fit_result opt) (fit_calls (snd (profile_scanner opt nb))) =
          map Some (ll_values (snd (profile_scanner opt nb)))"
    by (rule f(2))
  show c: "length (fit_calls (snd (profile_scanner opt nb))) = length (norma_r nb)"
    using arg_cong [OF t, of length] by simp
  show "length (ll_values (snd (profile_scanner opt nb))) = length (norma_r nb)"
    using arg_cong [OF r, of length] c by simp
next
  assume "\<forall>s ot. fst (opt s ot) \<noteq> None"
  then show "fst (profile_scanner opt nb) = None"
    by (rule profile_scanner_completes)
qed

theorem scan_visits_every_trial_in_order_witness:
  "(\<forall>s ot. fst (opt_echo s ot) \<noteq> None)
   \<and> fst (profile_scanner opt_echo nb_three) = None
   \<and> norma_r nb_three = [1, 2, 3]
   \<and> length (fit_calls (snd (profile_scanner opt_echo nb_three))) = 3
   \<and> map trial_of (fit_calls (snd (profile_scanner opt_echo nb_three))) = [1, 2, 3]
   \<and> ll_values (snd (profile_scanner opt_echo nb_three)) = [1, 2, 3]"
proof -
  have h: "\<forall>s ot. fst (opt_echo s ot) \<noteq> None"
    by (simp add: opt_echo_def)
  have n: "norma_r nb_three = [1, 2, 3]"
    by (simp add: nb_three_def)
  show ?thesis
    using scan_visits_every_trial_in_order [of opt_echo nb_three] h n scan_three_echo(2)
    by simp
qed

text \<open>
  C6. The cell before the loop fixes the swept parameter; every call of the optimizer
  during the scan is made on a model in which the parameter is fixed; and in the state the
  scanner leaves behind, whether the loop completed or stopped with an exception, the
  parameter is still fixed: nothing sets it free again.
\<close>

theorem scanner_leaves_parameter_fixed:
  "fst (cell_fix nb) = None
   \<and> \<not> pfree (scanned (snd (cell_fix nb)))
   \<and> (\<forall>c \<in> set (fit_calls (snd (profile_scanner opt nb))). \<not> pfree (Normalization (fst c)))
   \<and> \<not> pfree (scanned (snd (profile_scanner opt nb)))"
proof -
  have "fst (cell_fix nb) = None"
    by (simp add: cell_fix_def)
  moreover have "\<not> pfree (scanned (snd (cell_fix nb)))"
    by (simp add: cell_fix_def scanned_def set_Normalization_def par_fix_def)
  ultimately show ?thesis
    using profile_scanner_fixed [where opt = opt and nb = nb] by blast
qed

theorem scanner_leaves_parameter_fixed_witness:
  "pfree (scanned nb_three)
   \<and> fit_calls (snd (profile_scanner opt_echo nb_three)) \<noteq> []
   \<and> \<not> pfree (Normalization (fst (hd (fit_calls (snd (profile_scanner opt_echo nb_three))))))
   \<and> \<not> pfree (scanned (snd (profile_scanner opt_echo nb_three)))"
proof -
  have f: "pfree (scanned nb_three)"
    by (simp add: scanned_def nb_three_def nb_fresh_def like_example_def)
  have "map trial_of (fit_calls (snd (profile_scanner opt_echo nb_three))) \<noteq> []"
    unfolding scan_three_echo(3) by simp
  then have ne: "fit_calls (snd (profile_scanner opt_echo nb_three)) \<noteq> []"
    by simp
  then have "hd (fit_calls (snd (profile_scanner opt_echo nb_three)))
      \<in> set (fit_calls (snd (profile_scanner opt_echo nb_three)))"
    by (rule hd_in_set)
  with f ne scanner_leaves_parameter_fixed [of nb_three opt_echo] show ?thesis
    by blast
qed


subsection \<open>The trial values\<close>

lemma cell_norma_r_result:
  "fst (cell_norma_r nb) = None"
  "norma_r (snd (cell_norma_r nb)) = map trial [0..<50]"
  "like (snd (cell_norma_r nb)) = like nb"
  by (simp_all add: cell_norma_r_def Let_def trial_def [abs_def])

lemma trial_strict_mono: "i < j \<Longrightarrow> trial i < trial j"
  by (simp add: trial_def)

lemma trial_first: "trial 0 = 1 / 10 ^ 28"
proof -
  have "trial 0 = 10 powr (- real (28::nat))"
    by (simp add: trial_def)
  also have "\<dots> = inverse (10 powr real (28::nat))"
    by (rule powr_minus)
  also have "\<dots> = 1 / 10 ^ 28"
    by (simp add: powr_realpow inverse_eq_divide)
  finally show ?thesis .
qed

lemma trial_last: "trial 49 = 1 / 10 ^ 6"
proof -
  have "trial 49 = 10 powr (- real (6::nat))"
    by (simp add: trial_def)
  also have "\<dots> = inverse (10 powr real (6::nat))"
    by (rule powr_minus)
  also have "\<dots> = 1 / 10 ^ 6"
    by (simp add: powr_realpow inverse_eq_divide)
  finally show ?thesis .
qed

lemma trial_mono: "i \<le> j \<Longrightarrow> trial i \<le> trial j"
  by (simp add: trial_def)

lemma trial_bounds:
  assumes "i < 50"
  shows "1 / 10 ^ 28 \<le> trial i" and "trial i \<le> 1 / 10 ^ 6" and "0 < trial i"
    and "trial i < 10 ^ 20"
proof -
  show lo: "1 / 10 ^ 28 \<le> trial i"
    using trial_mono [of 0 i] by (simp add: trial_first)
  show hi: "trial i \<le> 1 / 10 ^ 6"
    using trial_mono [of i 49] assms by (simp add: trial_last)
  show "0 < trial i"
    by (simp add: trial_def)
  have "(1::real) / 10 ^ 6 < 10 ^ 20"
    by simp
  with hi show "trial i < 10 ^ 20"
    by (rule le_less_trans)
qed

lemma sorted_trials: "sorted_wrt (<) (map trial [0..<n])"
  by (simp add: sorted_wrt_iff_nth_less trial_strict_mono)

lemma set_trials: "v \<in> set (map trial [0..<50]) \<Longrightarrow> \<exists>i<50. v = trial i"
  by auto

text \<open>
  C7. The cell binds \<open>norma_r\<close> to exactly 50 values: the powers of ten whose exponents
  run from -28 in steps of 22/49. The first is \<open>10^-28\<close>, the last is \<open>10^-6\<close>, and the
  sequence is strictly increasing.
\<close>

theorem norma_r_fifty_log_spaced:
  "fst (cell_norma_r nb) = None
   \<and> length (norma_r (snd (cell_norma_r nb))) = 50
   \<and> norma_r (snd (cell_norma_r nb)) = map (\<lambda>i. 10 powr (- 28 + real i * (22 / 49))) [0..<50]
   \<and> hd (norma_r (snd (cell_norma_r nb))) = 1 / 10 ^ 28
   \<and> last (norma_r (snd (cell_norma_r nb))) = 1 / 10 ^ 6
   \<and> sorted_wrt (<) (norma_r (snd (cell_norma_r nb)))"
proof -
  have m: "norma_r (snd (cell_norma_r nb)) = map trial [0..<50]"
    by (rule cell_norma_r_result)
  have 1: "fst (cell_norma_r nb) = None"
    by (rule cell_norma_r_result)
  have 2: "length (norma_r (snd (cell_norma_r nb))) = 50"
    unfolding m by simp
  have 3: "norma_r (snd (cell_norma_r nb)) = map (\<lambda>i. 10 powr (- 28 + real i * (22 / 49))) [0..<50]"
    unfolding m trial_def [abs_def] ..
  have "hd (map trial [0..<50]) = trial 0"
    by (simp add: hd_map upt_conv_Cons)
  then have 4: "hd (norma_r (snd (cell_norma_r nb))) = 1 / 10 ^ 28"
    unfolding m trial_first .
  have "last (map trial [0..<50]) = trial 49"
    by (simp add: last_map)
  then have 5: "last (norma_r (snd (cell_norma_r nb))) = 1 / 10 ^ 6"
    unfolding m trial_last .
  have 6: "sorted_wrt (<) (norma_r (snd (cell_norma_r nb)))"
    unfolding m by (rule sorted_trials)
  from 1 2 3 4 5 6 show ?thesis by blast
qed

lemma accepts_in_range:
  assumes "pmin p \<le> v" and "v \<le> pmax p"
  shows "accepts v p"
  using assms by (simp add: accepts_def)

lemma scanned_cell_norma_r [simp]: "scanned (snd (cell_norma_r nb)) = scanned nb"
  by (simp add: scanned_def cell_norma_r_result)

lemma run_norma_r_scan:
  "run_cells [cell_norma_r, cell_scan opt] nb =
     scan_loop opt (map trial [0..<50]) ((snd (cell_norma_r nb))\<lparr>ll_values := [], fit_calls := []\<rparr>)"
  using cell_norma_r_result(1,2) [of nb]
  by (cases "cell_norma_r nb") (simp add: cell_scan_def split: prod.splits option.splits)

lemma run_norma_r_fix_scan:
  "run_cells [cell_norma_r, cell_fix, cell_scan opt] nb = profile_scanner opt (snd (cell_norma_r nb))"
  using cell_norma_r_result(1) [of nb]
  by (cases "cell_norma_r nb") (simp add: profile_scanner_def)

text \<open>
  C10. Every trial value of the scan sequence lies strictly between 0 and \<open>10^20\<close>, so
  a parameter whose declared range is \<open>[0, 10^20]\<close> accepts it, whether it is free or
  fixed. That range is the one the model construction cell declares for
  \<open>Normalization\<close>. If the scanned parameter of the fit object carries it, no assignment
  of the scan loop over \<open>norma_r\<close> is rejected as out of range, with or without the cell
  that fixes the parameter first.
\<close>

theorem trial_values_inside_declared_range:
  "(\<forall>v \<in> set (norma_r (snd (cell_norma_r nb))).
       0 < v \<and> v < 10 ^ 20
       \<and> (\<forall>p. pmin p = 0 \<and> pmax p = 10 ^ 20 \<longrightarrow> par_value v p = Inr (p\<lparr>pvalue := v\<rparr>)))
   \<and> (fst (cell_dmspec tbl nb1) = None \<longrightarrow>
        pmin (Normalization (dmspec (snd (cell_dmspec tbl nb1)))) = 0
        \<and> pmax (Normalization (dmspec (snd (cell_dmspec tbl nb1)))) = 10 ^ 20)
   \<and> (pmin (scanned nb) = 0 \<and> pmax (scanned nb) = 10 ^ 20 \<longrightarrow>
        fst (run_cells [cell_norma_r, cell_scan opt] nb) \<noteq> Some OutOfRangeError
        \<and> fst (run_cells [cell_norma_r, cell_fix, cell_scan opt] nb) \<noteq> Some OutOfRangeError)"
proof (intro conjI ballI impI allI)
  fix v assume "v \<in> set (norma_r (snd (cell_norma_r nb)))"
  then obtain i where i: "i < 50" "v = trial i"
    unfolding cell_norma_r_result(2) by auto
  show "0 < v" and v: "v < 10 ^ 20"
    using trial_bounds [OF i(1)] i(2) by simp_all
  fix p :: par assume "pmin p = 0 \<and> pmax p = 10 ^ 20"
  with \<open>0 < v\<close> v have "accepts v p"
    by (intro accepts_in_range) simp_all
  then show "par_value v p = Inr (p\<lparr>pvalue := v\<rparr>)"
    by (rule par_value_accepts)
next
  assume "fst (cell_dmspec tbl nb1) = None"
  then show "pmin (Normalization (dmspec (snd (cell_dmspec tbl nb1)))) = 0"
    and "pmax (Normalization (dmspec (snd (cell_dmspec tbl nb1)))) = 10 ^ 20"
    by (auto simp: cell_dmspec_def Let_def set_Normalization_def par_range_def
        split: sum.splits)
next
  assume r: "pmin (scanned nb) = 0 \<and> pmax (scanned nb) = 10 ^ 20"
  have "\<forall>v \<in> set (map trial [0..<50]).
      accepts v (scanned ((snd (cell_norma_r nb))\<lparr>ll_values := [], fit_calls := []\<rparr>))"
  proof
    fix v assume "v \<in> set (map trial [0..<50])"
    then obtain i where i: "i < 50" "v = trial i"
      by auto
    have "accepts v (scanned nb)"
      using trial_bounds [OF i(1)] i(2) r by (intro accepts_in_range) simp_all
    then show "accepts v (scanned ((snd (cell_norma_r nb))\<lparr>ll_values := [], fit_calls := []\<rparr>))"
      by (simp add: scanned_def cell_norma_r_result)
  qed
  then show "fst (run_cells [cell_norma_r, cell_scan opt] nb) \<noteq> Some OutOfRangeError"
    unfolding run_norma_r_scan by (rule scan_loop_never_rejects)
  show "fst (run_cells [cell_norma_r, cell_fix, cell_scan opt] nb) \<noteq> Some OutOfRangeError"
    unfolding run_norma_r_fix_scan by (rule profile_scanner_not_rejected)
qed

theorem trial_values_inside_declared_range_witness:
  "pmin (scanned nb_fresh) = 0 \<and> pmax (scanned nb_fresh) = 10 ^ 20 \<and> pfree (scanned nb_fresh)
   \<and> hd (norma_r (snd (cell_norma_r nb_fresh))) \<in> set (norma_r (snd (cell_norma_r nb_fresh)))
   \<and> 0 < hd (norma_r (snd (cell_norma_r nb_fresh)))
   \<and> hd (norma_r (snd (cell_norma_r nb_fresh))) < 10 ^ 20
   \<and> par_value (hd (norma_r (snd (cell_norma_r nb_fresh)))) (scanned nb_fresh) =
       Inr ((scanned nb_fresh)\<lparr>pvalue := hd (norma_r (snd (cell_norma_r nb_fresh)))\<rparr>)
   \<and> fst (cell_dmspec tbl_example
         (bind_var ''fluxnorm'' 1 (bind_var ''channel'' 8 (bind_var ''mass'' 5000 nb_fresh)))) = None
   \<and> pmax (Normalization (dmspec (snd (cell_dmspec tbl_example
         (bind_var ''fluxnorm'' 1 (bind_var ''channel'' 8 (bind_var ''mass'' 5000 nb_fresh))))))) = 10 ^ 20
   \<and> fst (run_cells [cell_norma_r, cell_scan opt_echo] nb_fresh) \<noteq> Some OutOfRangeError
   \<and> fst (run_cells [cell_norma_r, cell_fix, cell_scan opt_echo] nb_fresh) \<noteq> Some OutOfRangeError"
proof -
  let ?nb1 = "bind_var ''fluxnorm'' 1 (bind_var ''channel'' 8 (bind_var ''mass'' 5000 nb_fresh))"
  let ?v = "hd (norma_r (snd (cell_norma_r nb_fresh)))"
  have r: "pmin (scanned nb_fresh) = 0 \<and> pmax (scanned nb_fresh) = 10 ^ 20"
    by (simp add: scanned_def nb_fresh_def like_example_def)
  have f: "pfree (scanned nb_fresh)"
    by (simp add: scanned_def nb_fresh_def like_example_def)
  have "norma_r (snd (cell_norma_r nb_fresh)) \<noteq> []"
    unfolding cell_norma_r_result(2) by simp
  then have m: "?v \<in> set (norma_r (snd (cell_norma_r nb_fresh)))"
    by (rule hd_in_set)
  have v: "vars ?nb1 ''mass'' = Some 5000" "vars ?nb1 ''channel'' = Some 8"
    "vars ?nb1 ''fluxnorm'' = Some 1"
    by (simp_all add: bind_var_def)
  have a: "accepts 5000 (Mass tbl_example)" "accepts 8 (Channel tbl_example)"
    "accepts 1 (Normalization tbl_example)"
    by (simp_all add: accepts_def tbl_example_def)
  have d: "fst (cell_dmspec tbl_example ?nb1) = None"
    unfolding cell_dmspec_ok [OF v a] by simp
  note t = trial_values_inside_declared_range [of nb_fresh tbl_example ?nb1 opt_echo]
  from t m have 1: "0 < ?v" "?v < 10 ^ 20"
    "par_value ?v (scanned nb_fresh) = Inr ((scanned nb_fresh)\<lparr>pvalue := ?v\<rparr>)"
    using r by blast+
  from t d have 2: "pmax (Normalization (dmspec (snd (cell_dmspec tbl_example ?nb1)))) = 10 ^ 20"
    by blast
  from t r have 3: "fst (run_cells [cell_norma_r, cell_scan opt_echo] nb_fresh) \<noteq> Some OutOfRangeError"
    "fst (run_cells [cell_norma_r, cell_fix, cell_scan opt_echo] nb_fresh) \<noteq> Some OutOfRangeError"
    by blast+
  from r f m 1 d 2 3 show ?thesis
    by blast
qed


subsection \<open>The cross-section cells\<close>

lemma run_cells_invariant:
  assumes "\<And>c nb. c \<in> set cs \<Longrightarrow> P nb \<Longrightarrow> P (snd (c nb))" and "P nb"
  shows "P (snd (run_cells cs nb))"
  using assms
proof (induction cs arbitrary: nb)
  case Nil
  then show ?case by simp
next
  case (Cons c cs)
  have p: "P (snd (c nb))"
    using Cons.prems by simp
  show ?case
  proof (cases "c nb")
    case (Pair e nb1)
    with p have p1: "P nb1" by simp
    show ?thesis
    proof (cases e)
      case None
      have "P (snd (run_cells cs nb1))"
        using Cons.prems(1) p1 by (intro Cons.IH) simp_all
      with Pair None show ?thesis by simp
    next
      case (Some x)
      with Pair p1 show ?thesis by simp
    qed
  qed
qed

lemma run_cells_raises:
  assumes "fst (run_cells cs nb) = Some e"
  shows "\<exists>c \<in> set cs. \<exists>nb1. fst (c nb1) = Some e"
  using assms
proof (induction cs arbitrary: nb)
  case Nil
  then show ?case by simp
next
  case (Cons c cs)
  show ?case
  proof (cases "c nb")
    case (Pair x nb1)
    show ?thesis
    proof (cases x)
      case None
      with Pair Cons.prems have "fst (run_cells cs nb1) = Some e" by simp
      from Cons.IH [OF this] show ?thesis by auto
    next
      case (Some y)
      with Pair Cons.prems have "fst (c nb) = Some e" by simp
      then show ?thesis by auto
    qed
  qed
qed

text \<open>What a cell can raise, and what it leaves alone.\<close>

lemma quiet_refl [simp]: "quiet nb nb"
  by (simp add: quiet_def)

lemma cell_source_quiet: "quiet nb0 nb \<Longrightarrow> quiet nb0 (snd (cell_source nb))"
  by (simp add: quiet_def cell_source_def bind_var_def)

lemma cell_mass_channel_quiet: "quiet nb0 nb \<Longrightarrow> quiet nb0 (snd (cell_mass_channel nb))"
  by (simp add: quiet_def cell_mass_channel_def bind_var_def)

lemma cell_sigmav_quiet: "quiet nb0 nb \<Longrightarrow> quiet nb0 (snd (cell_sigmav s nb))"
  by (simp add: quiet_def cell_sigmav_def bind_var_def)

lemma cell_fluxnorm_quiet: "quiet nb0 nb \<Longrightarrow> quiet nb0 (snd (cell_fluxnorm nb))"
  by (simp add: quiet_def cell_fluxnorm_def bind_var_def rd_def Let_def
      split: sum.splits option.splits)

lemma cell_dmspec_quiet: "quiet nb0 nb \<Longrightarrow> quiet nb0 (snd (cell_dmspec tbl nb))"
  by (simp add: quiet_def cell_dmspec_def Let_def split: sum.splits)

lemma cell_free_mass_quiet: "quiet nb0 nb \<Longrightarrow> quiet nb0 (snd (cell_free_mass nb))"
  by (simp add: quiet_def cell_free_mass_def)

lemma cell_dmmodel_quiet: "quiet nb0 nb \<Longrightarrow> quiet nb0 (snd (cell_dmmodel nb))"
  by (simp add: quiet_def cell_dmmodel_def)

lemma cell_models_quiet: "quiet nb0 nb \<Longrightarrow> quiet nb0 (snd (cell_models nb))"
  by (simp add: quiet_def cell_models_def)

lemma cell_emin_quiet: "quiet nb0 nb \<Longrightarrow> quiet nb0 (snd (cell_emin nb))"
  by (simp add: quiet_def cell_emin_def bind_var_def)

lemma cell_like_quiet: "quiet nb0 nb \<Longrightarrow> quiet nb0 (snd (cell_like opt lk0 nb))"
  by (simp add: quiet_def cell_like_def split: prod.splits)

lemmas cells_quiet =
  cell_source_quiet cell_mass_channel_quiet cell_sigmav_quiet cell_fluxnorm_quiet
  cell_dmspec_quiet cell_free_mass_quiet cell_dmmodel_quiet cell_models_quiet cell_emin_quiet
  cell_like_quiet

lemma cell_meas_sigmav_unbound:
  assumes "vars nb ''meas_sigmav'' = None"
  shows "fst (cell_meas_sigmav flux nb) \<noteq> None"
    and "quiet nb (snd (cell_meas_sigmav flux nb))"
  using assms
  by (simp_all add: cell_meas_sigmav_def quiet_def rd_def bind_var_def Let_def
      split: sum.splits option.splits)

lemma cell_meas_sigmav_reaches_print:
  assumes "vars nb ''emin'' = Some e" and "vars nb ''mass'' = Some m"
    and "flux (dmmodel nb) (GEnergy e TeV) (GEnergy m GeV) = Some rf"
    and "flux (src (like nb)) (GEnergy e TeV) (GEnergy m GeV) = Some mf"
    and "vars nb ''meas_sigmav'' = None"
  shows "cell_meas_sigmav flux nb =
    (Some (NameError ''meas_sigmav''), bind_var ''meas_flux'' mf (bind_var ''ref_flux'' rf nb))"
  using assms by (simp add: cell_meas_sigmav_def rd_def bind_var_def)

lemma model_cells_run:
  assumes "accepts (5.0 * 10 ^ 3) (Mass tbl)" "accepts 8 (Channel tbl)"
    and "accepts (fluxnorm (1.8621 * 10 ^ 18) s (5.0 * 10 ^ 3)) (Normalization tbl)"
  shows "\<exists>nb1. run_cells (model_cells s tbl) nb = (None, nb1)
      \<and> vars nb1 = (vars nb)(''jfactor'' \<mapsto> 1.8621 * 10 ^ 18, ''ra'' \<mapsto> 338.4813,
           ''dec'' \<mapsto> - 9.3274, ''mass'' \<mapsto> 5.0 * 10 ^ 3, ''channel'' \<mapsto> 8, ''sigmav'' \<mapsto> s,
           ''fluxnorm'' \<mapsto> fluxnorm (1.8621 * 10 ^ 18) s (5.0 * 10 ^ 3))
      \<and> pvalue (Mass (dmmodel nb1)) = 5.0 * 10 ^ 3
      \<and> like nb1 = like nb \<and> stdout nb1 = stdout nb"
proof -
  let ?nb4 = "bind_var ''fluxnorm'' (fluxnorm (1.8621 * 10 ^ 18) s (5.0 * 10 ^ 3))
       (bind_var ''sigmav'' s (bind_var ''channel'' 8 (bind_var ''mass'' (5.0 * 10 ^ 3)
       (bind_var ''dec'' (- 9.3274) (bind_var ''ra'' 338.4813
       (bind_var ''jfactor'' (1.8621 * 10 ^ 18) nb))))))"
  have split: "model_cells s tbl = [cell_source, cell_mass_channel, cell_sigmav s, cell_fluxnorm]
        @ [cell_dmspec tbl, cell_free_mass, cell_dmmodel, cell_models]"
    by (simp add: model_cells_def)
  have r: "run_cells (model_cells s tbl) nb =
      run_cells [cell_dmspec tbl, cell_free_mass, cell_dmmodel, cell_models] ?nb4"
    unfolding split run_cells_append input_cells_vars by simp
  have v: "vars ?nb4 ''mass'' = Some (5.0 * 10 ^ 3)" "vars ?nb4 ''channel'' = Some 8"
    "vars ?nb4 ''fluxnorm'' = Some (fluxnorm (1.8621 * 10 ^ 18) s (5.0 * 10 ^ 3))"
    by (simp_all add: bind_var_def)
  note t = tail_cells_ok [OF v assms]
  show ?thesis
    unfolding r t by (simp add: bind_var_def)
qed

lemma analysis_tail:
  assumes "vars nb1 ''mass'' = Some m" and "vars nb1 ''meas_sigmav'' = None"
    and "like_run opt lk0 = (None, lk)"
    and "flux (dmmodel nb1) (GEnergy 0.03 TeV) (GEnergy m GeV) = Some rf"
    and "flux (src lk) (GEnergy 0.03 TeV) (GEnergy m GeV) = Some mf"
  shows "fst (run_cells [cell_emin, cell_like opt lk0, cell_meas_sigmav flux] nb1) =
           Some (NameError ''meas_sigmav'')"
    and "vars (snd (run_cells [cell_emin, cell_like opt lk0, cell_meas_sigmav flux] nb1)) =
           (vars nb1)(''emin'' \<mapsto> 0.03, ''emax'' \<mapsto> 100, ''ref_flux'' \<mapsto> rf, ''meas_flux'' \<mapsto> mf)"
    and "stdout (snd (run_cells [cell_emin, cell_like opt lk0, cell_meas_sigmav flux] nb1)) =
           stdout nb1"
proof -
  let ?nb2 = "(bind_var ''emax'' 100 (bind_var ''emin'' 0.03 nb1))\<lparr>like := lk\<rparr>"
  have 1: "run_cells [cell_emin, cell_like opt lk0, cell_meas_sigmav flux] nb1 =
      cell_meas_sigmav flux ?nb2"
    by (simp add: cell_emin_def cell_like_def assms(3) split: prod.splits option.splits)
  have 2: "cell_meas_sigmav flux ?nb2 =
      (Some (NameError ''meas_sigmav''), bind_var ''meas_flux'' mf (bind_var ''ref_flux'' rf ?nb2))"
    using assms(1,2,4,5) by (intro cell_meas_sigmav_reaches_print) (simp_all add: bind_var_def)
  show "fst (run_cells [cell_emin, cell_like opt lk0, cell_meas_sigmav flux] nb1) =
           Some (NameError ''meas_sigmav'')"
    unfolding 1 2 by simp
  show "vars (snd (run_cells [cell_emin, cell_like opt lk0, cell_meas_sigmav flux] nb1)) =
           (vars nb1)(''emin'' \<mapsto> 0.03, ''emax'' \<mapsto> 100, ''ref_flux'' \<mapsto> rf, ''meas_flux'' \<mapsto> mf)"
    unfolding 1 2 by (simp add: bind_var_def)
  show "stdout (snd (run_cells [cell_emin, cell_like opt lk0, cell_meas_sigmav flux] nb1)) =
           stdout nb1"
    unfolding 1 2 by (simp add: bind_var_def)
qed

lemma like_run_example:
  "like_run opt_echo like_example = (None, like_example\<lparr>opt_value := 1\<rparr>)"
  by (simp add: like_run_def opt_echo_def like_example_def refit_def)

lemma example_accepts:
  "accepts (5.0 * 10 ^ 3) (Mass tbl_example)" "accepts 8 (Channel tbl_example)"
  "accepts (fluxnorm (1.8621 * 10 ^ 18) (2.7 / 10 ^ 22) (5.0 * 10 ^ 3)) (Normalization tbl_example)"
proof -
  show "accepts (5.0 * 10 ^ 3) (Mass tbl_example)" "accepts 8 (Channel tbl_example)"
    by (simp_all add: accepts_def tbl_example_def)
  show "accepts (fluxnorm (1.8621 * 10 ^ 18) (2.7 / 10 ^ 22) (5.0 * 10 ^ 3)) (Normalization tbl_example)"
    unfolding fluxnorm_over_pi by (rule tbl_example_accepts) simp_all
qed

lemma analysis_cells_example:
  assumes "\<And>s. pvalue (Mass s) = 5.0 * 10 ^ 3 \<Longrightarrow>
      flux s (GEnergy 0.03 TeV) (GEnergy (5.0 * 10 ^ 3) GeV) = Some rf"
    and "flux (src (like_example\<lparr>opt_value := 1\<rparr>)) (GEnergy 0.03 TeV) (GEnergy (5.0 * 10 ^ 3) GeV) = Some mf"
  shows "fst (run_cells (analysis_cells tbl_example opt_echo like_example flux) nb_fresh) =
           Some (NameError ''meas_sigmav'')"
    and "vars (snd (run_cells (analysis_cells tbl_example opt_echo like_example flux) nb_fresh))
           ''ref_flux'' = Some rf"
    and "vars (snd (run_cells (analysis_cells tbl_example opt_echo like_example flux) nb_fresh))
           ''meas_flux'' = Some mf"
    and "vars (snd (run_cells (analysis_cells tbl_example opt_echo like_example flux) nb_fresh))
           ''sigmav'' = Some (2.7 / 10 ^ 22)"
    and "vars (snd (run_cells (analysis_cells tbl_example opt_echo like_example flux) nb_fresh))
           ''meas_sigmav'' = None"
    and "stdout (snd (run_cells (analysis_cells tbl_example opt_echo like_example flux) nb_fresh)) = []"
proof -
  from model_cells_run [OF example_accepts, of nb_fresh] obtain nb1 where
    nb1: "run_cells (model_cells (2.7 / 10 ^ 22) tbl_example) nb_fresh = (None, nb1)"
      "vars nb1 = (vars nb_fresh)(''jfactor'' \<mapsto> 1.8621 * 10 ^ 18, ''ra'' \<mapsto> 338.4813,
           ''dec'' \<mapsto> - 9.3274, ''mass'' \<mapsto> 5.0 * 10 ^ 3, ''channel'' \<mapsto> 8,
           ''sigmav'' \<mapsto> 2.7 / 10 ^ 22,
           ''fluxnorm'' \<mapsto> fluxnorm (1.8621 * 10 ^ 18) (2.7 / 10 ^ 22) (5.0 * 10 ^ 3))"
      "pvalue (Mass (dmmodel nb1)) = 5.0 * 10 ^ 3" "stdout nb1 = stdout nb_fresh"
    by blast
  have r: "run_cells (analysis_cells tbl_example opt_echo like_example flux) nb_fresh =
      run_cells [cell_emin, cell_like opt_echo like_example, cell_meas_sigmav flux] nb1"
    unfolding analysis_cells_def run_cells_append nb1(1) by simp
  have m: "vars nb1 ''mass'' = Some (5.0 * 10 ^ 3)" and u: "vars nb1 ''meas_sigmav'' = None"
    unfolding nb1(2) by (simp_all add: nb_fresh_def)
  note t = analysis_tail [where flux = flux, OF m u like_run_example assms(1) [OF nb1(3)] assms(2)]
  show "fst (run_cells (analysis_cells tbl_example opt_echo like_example flux) nb_fresh) =
           Some (NameError ''meas_sigmav'')"
    unfolding r by (rule t(1))
  show "vars (snd (run_cells (analysis_cells tbl_example opt_echo like_example flux) nb_fresh))
           ''ref_flux'' = Some rf"
    unfolding r t(2) by simp
  show "vars (snd (run_cells (analysis_cells tbl_example opt_echo like_example flux) nb_fresh))
           ''meas_flux'' = Some mf"
    unfolding r t(2) by simp
  show "vars (snd (run_cells (analysis_cells tbl_example opt_echo like_example flux) nb_fresh))
           ''sigmav'' = Some (2.7 / 10 ^ 22)"
    unfolding r t(2) nb1(2) by simp
  show "vars (snd (run_cells (analysis_cells tbl_example opt_echo like_example flux) nb_fresh))
           ''meas_sigmav'' = None"
    unfolding r t(2) nb1(2) by (simp add: nb_fresh_def)
  show "stdout (snd (run_cells (analysis_cells tbl_example opt_echo like_example flux) nb_fresh)) = []"
    unfolding r t(3) nb1(4) by (simp add: nb_fresh_def)
qed

lemma run_cells_snoc:
  "run_cells (cs @ [c]) nb =
     (case run_cells cs nb of (Some e, nb1) \<Rightarrow> (Some e, nb1) | (None, nb1) \<Rightarrow> c nb1)"
  unfolding run_cells_append
  by (cases "run_cells cs nb") (auto split: option.splits prod.splits)

lemma rd_raises: "rd x nb = Inl e \<Longrightarrow> e = NameError x"
  by (simp add: rd_def split: option.splits)

lemma par_value_raises: "par_value v p = Inl e \<Longrightarrow> e = OutOfRangeError"
  by (simp add: par_value_def split: if_splits)

lemma cells_never_degenerate:
  "fst (cell_source nb) \<noteq> Some DegenerateReferenceError"
  "fst (cell_mass_channel nb) \<noteq> Some DegenerateReferenceError"
  "fst (cell_sigmav s nb) \<noteq> Some DegenerateReferenceError"
  "fst (cell_fluxnorm nb) \<noteq> Some DegenerateReferenceError"
  "fst (cell_dmspec tbl nb) \<noteq> Some DegenerateReferenceError"
  "fst (cell_free_mass nb) \<noteq> Some DegenerateReferenceError"
  "fst (cell_dmmodel nb) \<noteq> Some DegenerateReferenceError"
  "fst (cell_models nb) \<noteq> Some DegenerateReferenceError"
  "fst (cell_emin nb) \<noteq> Some DegenerateReferenceError"
  "fst (cell_like opt lk0 nb) \<noteq> Some DegenerateReferenceError"
  "fst (cell_meas_sigmav flux nb) \<noteq> Some DegenerateReferenceError"
  by (auto simp: cell_source_def cell_mass_channel_def cell_sigmav_def cell_fluxnorm_def
      cell_dmspec_def cell_free_mass_def cell_dmmodel_def cell_models_def cell_emin_def
      cell_like_def like_run_def cell_meas_sigmav_def Let_def
      dest: rd_raises par_value_raises split: sum.splits option.splits prod.splits)

text \<open>
  C1, on the code. The notebook states the formula in its text but no cell assigns
  \<open>meas_sigmav\<close>: from a kernel in which the name is unbound, the cells up to the measured
  cross section never end normally, the name stays unbound and nothing is printed, for
  every table, optimizer, fit object and integrator. The cell of the upper limit does not
  compile (\<open>ul_sigmav =\<close> has no right-hand side), so none of its lines runs.
\<close>

theorem measured_cross_section_never_computed:
  assumes "vars nb ''meas_sigmav'' = None"
  shows "fst (run_cells (analysis_cells tbl opt lk0 flux) nb) \<noteq> None
    \<and> vars (snd (run_cells (analysis_cells tbl opt lk0 flux) nb)) ''meas_sigmav'' = None
    \<and> stdout (snd (run_cells (analysis_cells tbl opt lk0 flux) nb)) = stdout nb
    \<and> fst (cell_ul_sigmav nb2) = Some SyntaxError
    \<and> snd (cell_ul_sigmav nb2) = nb2"
proof -
  let ?pre = "model_cells (2.7 / 10 ^ 22) tbl @ [cell_emin, cell_like opt lk0]"
  have a: "analysis_cells tbl opt lk0 flux = ?pre @ [cell_meas_sigmav flux]"
    by (simp add: analysis_cells_def)
  have q: "quiet nb (snd (run_cells ?pre nb))"
    by (rule run_cells_invariant) (auto simp: model_cells_def intro: cells_quiet)
  then have u: "vars (snd (run_cells ?pre nb)) ''meas_sigmav'' = None"
    using assms by (simp add: quiet_def)
  have "fst (run_cells (analysis_cells tbl opt lk0 flux) nb) \<noteq> None
    \<and> quiet nb (snd (run_cells (analysis_cells tbl opt lk0 flux) nb))"
  proof (cases "run_cells ?pre nb")
    case (Pair e nb1)
    show ?thesis
    proof (cases e)
      case None
      with Pair q u have q1: "quiet nb nb1" and u1: "vars nb1 ''meas_sigmav'' = None"
        by simp_all
      have r: "run_cells (analysis_cells tbl opt lk0 flux) nb = cell_meas_sigmav flux nb1"
        unfolding a run_cells_snoc Pair None by simp
      from cell_meas_sigmav_unbound [OF u1, of flux] q1 show ?thesis
        unfolding r by (simp add: quiet_def)
    next
      case (Some x)
      have r: "run_cells (analysis_cells tbl opt lk0 flux) nb = (Some x, nb1)"
        unfolding a run_cells_snoc Pair Some by simp
      from Pair q show ?thesis
        unfolding r by simp
    qed
  qed
  with assms show ?thesis
    by (simp add: quiet_def cell_ul_sigmav_def)
qed

theorem measured_cross_section_never_computed_witness:
  "vars nb_fresh ''meas_sigmav'' = None
   \<and> fst (run_cells (analysis_cells tbl_example opt_echo like_example flux_mass) nb_fresh) =
       Some (NameError ''meas_sigmav'')
   \<and> vars (snd (run_cells (analysis_cells tbl_example opt_echo like_example flux_mass) nb_fresh))
       ''ref_flux'' = Some 24850
   \<and> vars (snd (run_cells (analysis_cells tbl_example opt_echo like_example flux_mass) nb_fresh))
       ''meas_flux'' = Some 19880
   \<and> vars (snd (run_cells (analysis_cells tbl_example opt_echo like_example flux_mass) nb_fresh))
       ''sigmav'' = Some (2.7 / 10 ^ 22)
   \<and> vars (snd (run_cells (analysis_cells tbl_example opt_echo like_example flux_mass) nb_fresh))
       ''meas_sigmav'' = None
   \<and> stdout (snd (run_cells (analysis_cells tbl_example opt_echo like_example flux_mass) nb_fresh)) = []
   \<and> fst (cell_ul_sigmav nb_fresh) = Some SyntaxError"
proof -
  have h: "vars nb_fresh ''meas_sigmav'' = None"
    by (simp add: nb_fresh_def)
  have 1: "flux_mass s (GEnergy 0.03 TeV) (GEnergy (5.0 * 10 ^ 3) GeV) = Some 24850"
    if "pvalue (Mass s) = 5.0 * 10 ^ 3" for s
    using that by (simp add: flux_mass_def)
  have 2: "flux_mass (src (like_example\<lparr>opt_value := 1\<rparr>)) (GEnergy 0.03 TeV)
      (GEnergy (5.0 * 10 ^ 3) GeV) = Some 19880"
    by (simp add: flux_mass_def like_example_def)
  note e = analysis_cells_example [where flux = flux_mass, OF 1 2]
  note t = measured_cross_section_never_computed
    [OF h, of tbl_example opt_echo like_example flux_mass nb_fresh]
  have s: "stdout nb_fresh = []"
    by (simp add: nb_fresh_def)
  from t s have "stdout (snd (run_cells (analysis_cells tbl_example opt_echo like_example flux_mass)
      nb_fresh)) = []"
    by simp
  with h e t show ?thesis
    by blast
qed

text \<open>
  C2, on the code. With an integrator that returns the same flux for the reference model
  and for the fitted model, the cells bind \<open>ref_flux\<close> and \<open>meas_flux\<close> to that value
  and then stop at \<open>print(meas_sigmav)\<close> with \<open>NameError\<close>: no cross section is
  derived from the two equal fluxes.
\<close>

theorem round_trip_prints_no_cross_section:
  "fst (run_cells (analysis_cells tbl_example opt_echo like_example (flux_const 7)) nb_fresh) =
       Some (NameError ''meas_sigmav'')
   \<and> vars (snd (run_cells (analysis_cells tbl_example opt_echo like_example (flux_const 7)) nb_fresh))
       ''ref_flux'' = Some 7
   \<and> vars (snd (run_cells (analysis_cells tbl_example opt_echo like_example (flux_const 7)) nb_fresh))
       ''meas_flux'' = Some 7
   \<and> vars (snd (run_cells (analysis_cells tbl_example opt_echo like_example (flux_const 7)) nb_fresh))
       ''meas_sigmav'' = None
   \<and> stdout (snd (run_cells (analysis_cells tbl_example opt_echo like_example (flux_const 7)) nb_fresh)) = []"
proof -
  have 1: "flux_const 7 s (GEnergy 0.03 TeV) (GEnergy (5.0 * 10 ^ 3) GeV) = Some 7" for s
    by (simp add: flux_const_def)
  note e = analysis_cells_example [where flux = "flux_const 7", OF 1 1]
  from e show ?thesis
    by blast
qed

text \<open>
  C8, as stated, fails: with a reference flux of zero the cell goes on to integrate the
  fitted model and stops later with another exception; \<open>DegenerateReferenceError\<close> is
  not raised.
\<close>

theorem zero_reference_flux_not_rejected:
  "vars (snd (run_cells (analysis_cells tbl_example opt_echo like_example (flux_const 0)) nb_fresh))
       ''ref_flux'' = Some 0
   \<and> vars (snd (run_cells (analysis_cells tbl_example opt_echo like_example (flux_const 0)) nb_fresh))
       ''meas_flux'' = Some 0
   \<and> fst (run_cells (analysis_cells tbl_example opt_echo like_example (flux_const 0)) nb_fresh) =
       Some (NameError ''meas_sigmav'')
   \<and> fst (run_cells (analysis_cells tbl_example opt_echo like_example (flux_const 0)) nb_fresh) \<noteq>
       Some DegenerateReferenceError"
proof -
  have 1: "flux_const 0 s (GEnergy 0.03 TeV) (GEnergy (5.0 * 10 ^ 3) GeV) = Some 0" for s
    by (simp add: flux_const_def)
  note e = analysis_cells_example [where flux = "flux_const 0", OF 1 1]
  from e show ?thesis
    by simp
qed

text \<open>
  C8, amended. The notebook does not validate the reference flux. Neither the cell nor
  any cell before it raises \<open>DegenerateReferenceError\<close>; whatever value the integrator
  returns for the reference model (positive, zero or negative) is bound to \<open>ref_flux\<close>,
  and the cell goes on to integrate the fitted model and binds \<open>meas_flux\<close>.
\<close>

theorem reference_flux_not_validated:
  "fst (cell_meas_sigmav flux nb) \<noteq> Some DegenerateReferenceError
   \<and> fst (run_cells (analysis_cells tbl opt lk0 flux) nb1) \<noteq> Some DegenerateReferenceError
   \<and> (vars nb ''emin'' = Some e \<and> vars nb ''mass'' = Some m
        \<and> flux (dmmodel nb) (GEnergy e TeV) (GEnergy m GeV) = Some rf
        \<and> flux (src (like nb)) (GEnergy e TeV) (GEnergy m GeV) = Some mf \<longrightarrow>
      vars (snd (cell_meas_sigmav flux nb)) ''ref_flux'' = Some rf
      \<and> vars (snd (cell_meas_sigmav flux nb)) ''meas_flux'' = Some mf)"
proof (intro conjI impI)
  show "fst (cell_meas_sigmav flux nb) \<noteq> Some DegenerateReferenceError"
    by (rule cells_never_degenerate)
  show "fst (run_cells (analysis_cells tbl opt lk0 flux) nb1) \<noteq> Some DegenerateReferenceError"
  proof
    assume "fst (run_cells (analysis_cells tbl opt lk0 flux) nb1) = Some DegenerateReferenceError"
    from run_cells_raises [OF this] show False
      by (auto simp: analysis_cells_def model_cells_def cells_never_degenerate)
  qed
next
  assume a: "vars nb ''emin'' = Some e \<and> vars nb ''mass'' = Some m
        \<and> flux (dmmodel nb) (GEnergy e TeV) (GEnergy m GeV) = Some rf
        \<and> flux (src (like nb)) (GEnergy e TeV) (GEnergy m GeV) = Some mf"
  then show "vars (snd (cell_meas_sigmav flux nb)) ''ref_flux'' = Some rf"
    and "vars (snd (cell_meas_sigmav flux nb)) ''meas_flux'' = Some mf"
    by (simp_all add: cell_meas_sigmav_def rd_def bind_var_def split: option.splits)
qed

theorem reference_flux_not_validated_witness:
  "vars (bind_var ''mass'' 5000 (bind_var ''emin'' 0.03 nb_fresh)) ''emin'' = Some 0.03
   \<and> vars (bind_var ''mass'' 5000 (bind_var ''emin'' 0.03 nb_fresh)) ''mass'' = Some 5000
   \<and> flux_const (- 1) (dmmodel (bind_var ''mass'' 5000 (bind_var ''emin'' 0.03 nb_fresh)))
        (GEnergy 0.03 TeV) (GEnergy 5000 GeV) = Some (- 1)
   \<and> vars (snd (cell_meas_sigmav (flux_const (- 1))
        (bind_var ''mass'' 5000 (bind_var ''emin'' 0.03 nb_fresh)))) ''ref_flux'' = Some (- 1)
   \<and> vars (snd (cell_meas_sigmav (flux_const (- 1))
        (bind_var ''mass'' 5000 (bind_var ''emin'' 0.03 nb_fresh)))) ''meas_flux'' = Some (- 1)
   \<and> fst (cell_meas_sigmav (flux_const (- 1))
        (bind_var ''mass'' 5000 (bind_var ''emin'' 0.03 nb_fresh))) \<noteq> Some DegenerateReferenceError"
proof -
  let ?nb = "bind_var ''mass'' 5000 (bind_var ''emin'' 0.03 nb_fresh)"
  have v: "vars ?nb ''emin'' = Some 0.03" "vars ?nb ''mass'' = Some 5000"
    by (simp_all add: bind_var_def)
  have f: "flux_const (- 1) s (GEnergy 0.03 TeV) (GEnergy 5000 GeV) = Some (- 1)" for s
    by (simp add: flux_const_def)
  note t = reference_flux_not_validated
    [of "flux_const (- 1)" ?nb tbl_example opt_echo like_example nb_fresh "0.03" "5000" "- 1" "- 1"]
  from t v f show ?thesis
    by blast
qed

end
